theory Spec2Isabelle
  imports Complex_Main
begin

section \<open>A fiat-to-crypto gateway: transaction lifecycle and reconciliation\<close>

text \<open>
  The program is an Express application with three handlers:
  \<^verbatim>\<open>POST /api/transactions\<close>, \<^verbatim>\<open>GET /api/transactions/:id\<close> and
  \<^verbatim>\<open>POST /api/webhook/moonpay\<close>. They read and write two tables through an
  object-relational mapper and call the payment processor over HTTP.

  The embedding makes the three collaborators explicit:
  \<^item> the database is a value that each handler takes and returns;
  \<^item> the processor is a pair of functions giving the outcome of the one call a handler
    may make (an error or the response's data);
  \<^item> every \<^verbatim>\<open>create\<close> and \<^verbatim>\<open>update\<close> of the table that succeeds and every call
    of the processor is recorded, in order, in a list of events that the handler returns
    with its response.

  Request bodies, path parameters and processor responses carry the types that the
  OpenAPI annotations of the handlers and the table's columns give them, with two
  additions. The handlers check the presence of nothing but the user, so the fields of a
  request body are optional; and a JSON body can give an array or an object where a string
  is meant, which the mapper rejects for a string attribute. Where an absent field and a
  null one are treated alike (what is given to \<^verbatim>\<open>create\<close>, what is copied into the
  payload) \<open>None\<close> stands for both; where they are not (what is given to
  \<^verbatim>\<open>update\<close>) the type \<open>field\<close> tells them apart. Numbers are only ever carried
  from one place to another, never computed with; they are rationals here. The two timestamp
  columns, which the mapper maintains from the clock, are left out. The database answers
  every query: a lost connection or a limit of the SQL dialect is not part of the model,
  while the mapper's own validation of a row against the model definition is.
\<close>

type_synonym number = rat

text \<open>A field of a JSON object: absent, null, or a value.\<close>

datatype 'a field = Undefined | Null | Value 'a

text \<open>What a JSON object can give for a string attribute: a string, or an array or an
  object.\<close>

datatype string_value = Str string | ArrayOrObject

fun of_option :: "'a option \<Rightarrow> 'a field" where
  "of_option None = Undefined"
| "of_option (Some v) = Value v"

subsection \<open>Identifiers as decimal strings\<close>

text \<open>\<^verbatim>\<open>id.toString()\<close> on an integer: the decimal digits, with a minus sign first
  for a negative number.\<close>

definition digit :: "nat \<Rightarrow> char" where
  "digit d = ''0123456789'' ! (d mod 10)"

function digits :: "nat \<Rightarrow> string" where
  "digits n = (if n < 10 then [digit n] else digits (n div 10) @ [digit n])"
  by pat_completeness auto
termination
  by (relation "measure (\<lambda>n. n)") auto

declare digits.simps [simp del]

definition toString :: "int \<Rightarrow> string" where
  "toString i = (if i < 0 then CHR ''-'' # digits (nat (- i)) else digits (nat i))"

subsection \<open>The data model\<close>

text \<open>A user, with the fields of the \<^verbatim>\<open>User\<close> schema of the OpenAPI components and the
  primary key. The handlers only read users.\<close>

record user =
  user_id :: int
  firstName :: string
  lastName :: string
  email :: string
  phone :: string
  idNumber :: string

text \<open>A row of the table \<^verbatim>\<open>Transactions\<close>: the auto-incremented primary key and the
  eight attributes of \<^verbatim>\<open>Transaction.init\<close>, every one of them a nullable column.\<close>

record transaction =
  transaction_id :: int
  userId :: "int option"
  amount :: "number option"
  currency :: "string option"
  cryptoAmount :: "number option"
  cryptoCurrency :: "string option"
  status :: "string option"
  paymentMethod :: "string option"
  moonpayTransactionId :: "string option"

record db =
  users :: "user list"
  transactions :: "transaction list"

subsection \<open>The model definition and the mapper's validation\<close>

datatype attribute =
  UserId | Amount | Currency | CryptoAmount | CryptoCurrency | Status | PaymentMethod
  | MoonpayTransactionId

datatype data_type = INTEGER | FLOAT | STRING

record attribute_options =
  type_of_attribute :: data_type
  allowNull :: bool

text \<open>\<^verbatim>\<open>Transaction.init\<close> gives every attribute by its type alone. No attribute sets
  \<^verbatim>\<open>allowNull: false\<close> and none has a validator, so \<open>allowNull\<close> has its default
  everywhere; the migration declares the same columns, again with no constraint on them.\<close>

definition Transaction_init :: "attribute \<Rightarrow> attribute_options" where
  "Transaction_init a =
     (case a of
        UserId \<Rightarrow> \<lparr>type_of_attribute = INTEGER, allowNull = True\<rparr>
      | Amount \<Rightarrow> \<lparr>type_of_attribute = FLOAT, allowNull = True\<rparr>
      | Currency \<Rightarrow> \<lparr>type_of_attribute = STRING, allowNull = True\<rparr>
      | CryptoAmount \<Rightarrow> \<lparr>type_of_attribute = FLOAT, allowNull = True\<rparr>
      | CryptoCurrency \<Rightarrow> \<lparr>type_of_attribute = STRING, allowNull = True\<rparr>
      | Status \<Rightarrow> \<lparr>type_of_attribute = STRING, allowNull = True\<rparr>
      | PaymentMethod \<Rightarrow> \<lparr>type_of_attribute = STRING, allowNull = True\<rparr>
      | MoonpayTransactionId \<Rightarrow> \<lparr>type_of_attribute = STRING, allowNull = True\<rparr>)"

definition attributes :: "attribute list" where
  "attributes =
     [UserId, Amount, Currency, CryptoAmount, CryptoCurrency, Status, PaymentMethod,
      MoonpayTransactionId]"

text \<open>One entry of the object given to \<^verbatim>\<open>create\<close> or \<^verbatim>\<open>update\<close>: an attribute
  with its value.\<close>

datatype assignment =
  Set_userId "int field"
  | Set_amount "number field"
  | Set_currency "string_value field"
  | Set_cryptoAmount "number field"
  | Set_cryptoCurrency "string_value field"
  | Set_status "string_value field"
  | Set_paymentMethod "string_value field"
  | Set_moonpayTransactionId "string_value field"

fun attribute_of :: "assignment \<Rightarrow> attribute" where
  "attribute_of (Set_userId v) = UserId"
| "attribute_of (Set_amount v) = Amount"
| "attribute_of (Set_currency v) = Currency"
| "attribute_of (Set_cryptoAmount v) = CryptoAmount"
| "attribute_of (Set_cryptoCurrency v) = CryptoCurrency"
| "attribute_of (Set_status v) = Status"
| "attribute_of (Set_paymentMethod v) = PaymentMethod"
| "attribute_of (Set_moonpayTransactionId v) = MoonpayTransactionId"

text \<open>Setting a column: an undefined value leaves the column as it is, null makes it
  null, a value is stored. An array or object is never stored in a string column: the
  validation below rejects it before anything is written.\<close>

fun set_column :: "'a field \<Rightarrow> 'a option \<Rightarrow> 'a option" where
  "set_column Undefined old = old"
| "set_column Null old = None"
| "set_column (Value v) old = Some v"

fun set_string :: "string_value field \<Rightarrow> string option \<Rightarrow> string option" where
  "set_string Undefined old = old"
| "set_string Null old = None"
| "set_string (Value (Str x)) old = Some x"
| "set_string (Value ArrayOrObject) old = old"

fun assign :: "assignment \<Rightarrow> transaction \<Rightarrow> transaction" where
  "assign (Set_userId v) t = t\<lparr>userId := set_column v (userId t)\<rparr>"
| "assign (Set_amount v) t = t\<lparr>amount := set_column v (amount t)\<rparr>"
| "assign (Set_currency v) t = t\<lparr>currency := set_string v (currency t)\<rparr>"
| "assign (Set_cryptoAmount v) t = t\<lparr>cryptoAmount := set_column v (cryptoAmount t)\<rparr>"
| "assign (Set_cryptoCurrency v) t = t\<lparr>cryptoCurrency := set_string v (cryptoCurrency t)\<rparr>"
| "assign (Set_status v) t = t\<lparr>status := set_string v (status t)\<rparr>"
| "assign (Set_paymentMethod v) t = t\<lparr>paymentMethod := set_string v (paymentMethod t)\<rparr>"
| "assign (Set_moonpayTransactionId v) t =
     t\<lparr>moonpayTransactionId := set_string v (moonpayTransactionId t)\<rparr>"

text \<open>Whether an entry has a value at all, and whether its value is an array or an
  object.\<close>

fun is_given :: "assignment \<Rightarrow> bool" where
  "is_given (Set_userId v) = (v \<noteq> Undefined)"
| "is_given (Set_amount v) = (v \<noteq> Undefined)"
| "is_given (Set_currency v) = (v \<noteq> Undefined)"
| "is_given (Set_cryptoAmount v) = (v \<noteq> Undefined)"
| "is_given (Set_cryptoCurrency v) = (v \<noteq> Undefined)"
| "is_given (Set_status v) = (v \<noteq> Undefined)"
| "is_given (Set_paymentMethod v) = (v \<noteq> Undefined)"
| "is_given (Set_moonpayTransactionId v) = (v \<noteq> Undefined)"

fun is_array_or_object :: "assignment \<Rightarrow> bool" where
  "is_array_or_object (Set_userId v) = False"
| "is_array_or_object (Set_amount v) = False"
| "is_array_or_object (Set_currency v) = (v = Value ArrayOrObject)"
| "is_array_or_object (Set_cryptoAmount v) = False"
| "is_array_or_object (Set_cryptoCurrency v) = (v = Value ArrayOrObject)"
| "is_array_or_object (Set_status v) = (v = Value ArrayOrObject)"
| "is_array_or_object (Set_paymentMethod v) = (v = Value ArrayOrObject)"
| "is_array_or_object (Set_moonpayTransactionId v) = (v = Value ArrayOrObject)"

fun is_null :: "attribute \<Rightarrow> transaction \<Rightarrow> bool" where
  "is_null UserId t = (userId t = None)"
| "is_null Amount t = (amount t = None)"
| "is_null Currency t = (currency t = None)"
| "is_null CryptoAmount t = (cryptoAmount t = None)"
| "is_null CryptoCurrency t = (cryptoCurrency t = None)"
| "is_null Status t = (status t = None)"
| "is_null PaymentMethod t = (paymentMethod t = None)"
| "is_null MoonpayTransactionId t = (moonpayTransactionId t = None)"

datatype error =
  TypeError string
  | AxiosError "string option" string
  | ValidationError "attribute list"

text \<open>The mapper validates an instance against the model definition before it writes it,
  with two built-in checks: an attribute whose options forbid null and whose value is null
  is a violation, and so is an attribute of type \<^verbatim>\<open>STRING\<close> that was given an array
  or an object.\<close>

definition malformed :: "assignment \<Rightarrow> bool" where
  "malformed v \<longleftrightarrow>
     type_of_attribute (Transaction_init (attribute_of v)) = STRING \<and> is_array_or_object v"

definition validate :: "attribute list \<Rightarrow> assignment list \<Rightarrow> transaction \<Rightarrow> attribute list" where
  "validate checked vals t =
     filter (\<lambda>a. \<not> allowNull (Transaction_init a) \<and> is_null a t) checked @
     map attribute_of (filter malformed vals)"

subsection \<open>The table's operations\<close>

text \<open>The key of a new row is one more than the greatest key in the table, and 1 in an
  empty table: rows are never deleted.\<close>

definition next_id :: "transaction list \<Rightarrow> int" where
  "next_id rows = 1 + fold max (map transaction_id rows) 0"

definition build :: "int \<Rightarrow> assignment list \<Rightarrow> transaction" where
  "build k vals =
     fold assign vals
       \<lparr>transaction_id = k, userId = None, amount = None, currency = None,
        cryptoAmount = None, cryptoCurrency = None, status = None, paymentMethod = None,
        moonpayTransactionId = None\<rparr>"

definition Transaction_create ::
  "assignment list \<Rightarrow> transaction list \<Rightarrow> error + transaction \<times> transaction list" where
  "Transaction_create vals rows =
     (let t = build (next_id rows) vals in
      case validate attributes vals t of
        [] \<Rightarrow> Inr (t, rows @ [t])
      | v # vs \<Rightarrow> Inl (ValidationError (v # vs)))"

text \<open>\<^verbatim>\<open>instance.update(values)\<close> leaves out the values that are undefined, sets the
  others on the instance, validates the attributes they belong to, and writes them to the
  row that has the instance's key. A column whose value was left out stays as stored.\<close>

definition Transaction_update ::
  "assignment list \<Rightarrow> transaction \<Rightarrow> transaction list \<Rightarrow>
   error + transaction \<times> transaction list" where
  "Transaction_update vals t rows =
     (let given = filter is_given vals; t' = fold assign given t in
      case validate (map attribute_of given) given t' of
        [] \<Rightarrow>
          Inr (t', map (\<lambda>r. if transaction_id r = transaction_id t
                            then fold assign given r else r) rows)
      | v # vs \<Rightarrow> Inl (ValidationError (v # vs)))"

definition Transaction_findByPk :: "int \<Rightarrow> transaction list \<Rightarrow> transaction option" where
  "Transaction_findByPk k rows = find (\<lambda>r. transaction_id r = k) rows"

text \<open>\<^verbatim>\<open>findOne({ where: { moonpayTransactionId: e } })\<close>: the first row, in the order of
  the table, that has this external identifier.\<close>

definition Transaction_findOne :: "string \<Rightarrow> transaction list \<Rightarrow> transaction option" where
  "Transaction_findOne e rows = find (\<lambda>r. moonpayTransactionId r = Some e) rows"

text \<open>\<^verbatim>\<open>User.findByPk\<close> of an absent key is null.\<close>

definition User_findByPk :: "int option \<Rightarrow> user list \<Rightarrow> user option" where
  "User_findByPk k us =
     (case k of None \<Rightarrow> None | Some i \<Rightarrow> find (\<lambda>u. user_id u = i) us)"

subsection \<open>Requests, the processor, responses\<close>

text \<open>The body of \<^verbatim>\<open>POST /api/transactions\<close>, as the handler destructures it.\<close>

record card_details =
  cardNumber :: "string option"
  expiryMonth :: "string option"
  expiryYear :: "string option"
  cvv :: "string option"
  cardholderName :: "string option"

record user_details =
  walletAddress :: "string option"

record transaction_request =
  req_userId :: "int option"
  req_amount :: "number option"
  req_currency :: "string_value field"
  req_cryptoCurrency :: "string_value field"
  req_paymentMethod :: "string_value field"
  req_cardDetails :: "card_details option"
  req_userDetails :: "user_details option"

text \<open>What the handler sends to the processor.\<close>

record customer =
  customer_firstName :: string
  customer_lastName :: string
  customer_email :: string
  phoneNumber :: string
  externalCustomerId :: string

record moonpay_card =
  card_number :: "string option"
  expirationMonth :: "string option"
  expirationYear :: "string option"
  cvc :: "string option"
  card_cardholderName :: "string option"

record moonpay_payload =
  payload_walletAddress :: "string option"
  currencyCode :: "string_value field"
  baseCurrencyAmount :: "number option"
  baseCurrencyCode :: "string_value field"
  externalTransactionId :: string
  customer :: customer
  payload_paymentMethod :: "string_value field"
  payload_card :: "moonpay_card option"

text \<open>The data of the processor's two responses, and the body of its webhook. The answer
  to a creation has the three fields of the processor's contract. The answer to a lookup
  and the body of a webhook may lack the status or the crypto amount, or carry null: a
  transaction has no crypto amount until the processor reports one.\<close>

record created_data =
  created_id :: string
  created_status :: string
  redirectUrl :: string

record fetched_data =
  fetched_status :: "string_value field"
  fetched_cryptoAmount :: "number field"

record webhook_data =
  data_id :: string
  data_status :: "string_value field"
  data_cryptoAmount :: "number field"

record webhook_request =
  data :: "webhook_data option"

text \<open>The processor, as one handler sees it: the outcome of \<^verbatim>\<open>axios.post\<close> on a payload
  and of \<^verbatim>\<open>axios.get\<close> on a URL. \<open>Inl\<close> is a rejected promise: a response that is
  not a success, a network failure or a timeout.\<close>

record processor =
  axios_post :: "moonpay_payload \<Rightarrow> error + created_data"
  axios_get :: "string \<Rightarrow> error + fetched_data"

definition MOONPAY_BASE_URL :: string where
  "MOONPAY_BASE_URL = ''https://api.moonpay.com''"

datatype details = ResponseData string | Message error

datatype body =
  CreatedJson transaction string
  | TransactionJson transaction
  | ErrorJson string
  | ErrorDetailsJson string details
  | Text string

datatype response = Response nat body

datatype event =
  Created transaction
  | Updated transaction
  | Posted moonpay_payload
  | Got string

subsection \<open>\<^verbatim>\<open>POST /api/transactions\<close>\<close>

text \<open>\<^verbatim>\<open>error.response?.data || error.message\<close>: the data of the processor's error
  response when there is one and it is not empty, the error's message otherwise.\<close>

fun error_details :: "error \<Rightarrow> details" where
  "error_details (AxiosError (Some d) m) =
     (if d = [] then Message (AxiosError (Some d) m) else ResponseData d)"
| "error_details e = Message e"

definition transaction_failed :: "error \<Rightarrow> response" where
  "transaction_failed e = Response 500 (ErrorDetailsJson ''Transaction failed'' (error_details e))"

text \<open>The payload has a card exactly when
  \<^verbatim>\<open>paymentMethod === 'card_payment' && cardDetails\<close> is true: the method is the card's
  and the body has card details.\<close>

definition moonpayPayload ::
  "transaction_request \<Rightarrow> user_details \<Rightarrow> user \<Rightarrow> transaction \<Rightarrow> moonpay_payload" where
  "moonpayPayload req ud u t =
     (let p = \<lparr>payload_walletAddress = walletAddress ud,
               currencyCode = req_cryptoCurrency req,
               baseCurrencyAmount = req_amount req,
               baseCurrencyCode = req_currency req,
               externalTransactionId = toString (transaction_id t),
               customer = \<lparr>customer_firstName = firstName u,
                           customer_lastName = lastName u,
                           customer_email = email u,
                           phoneNumber = phone u,
                           externalCustomerId = toString (user_id u)\<rparr>,
               payload_paymentMethod = Undefined,
               payload_card = None\<rparr>
      in case (if req_paymentMethod req = Value (Str ''card_payment'')
               then req_cardDetails req else None) of
           Some cd \<Rightarrow>
             p\<lparr>payload_paymentMethod := Value (Str ''credit_debit_card''),
               payload_card := Some \<lparr>card_number = cardNumber cd,
                             expirationMonth = expiryMonth cd,
                             expirationYear = expiryYear cd,
                             cvc = cvv cd,
                             card_cardholderName = cardholderName cd\<rparr>\<rparr>
         | None \<Rightarrow> p\<lparr>payload_paymentMethod := req_paymentMethod req\<rparr>)"

definition post_api_transactions ::
  "processor \<Rightarrow> transaction_request \<Rightarrow> db \<Rightarrow> response \<times> db \<times> event list" where
  "post_api_transactions px req s =
     (case User_findByPk (req_userId req) (users s) of
        None \<Rightarrow> (Response 404 (ErrorJson ''User not found''), s, [])
      | Some u \<Rightarrow>
          (case Transaction_create
                  [Set_userId (of_option (req_userId req)),
                   Set_amount (of_option (req_amount req)),
                   Set_currency (req_currency req),
                   Set_cryptoCurrency (req_cryptoCurrency req),
                   Set_status (Value (Str ''pending'')),
                   Set_paymentMethod (req_paymentMethod req)]
                  (transactions s) of
             Inl e \<Rightarrow> (transaction_failed e, s, [])
           | Inr (t, rows1) \<Rightarrow>
               (let s1 = s\<lparr>transactions := rows1\<rparr> in
                case req_userDetails req of
                  None \<Rightarrow> (transaction_failed (TypeError ''walletAddress''), s1, [Created t])
                | Some ud \<Rightarrow>
                    (let p = moonpayPayload req ud u t in
                     case axios_post px p of
                       Inl e \<Rightarrow> (transaction_failed e, s1, [Created t, Posted p])
                     | Inr d \<Rightarrow>
                         (case Transaction_update
                                 [Set_moonpayTransactionId (Value (Str (created_id d))),
                                  Set_status (Value (Str (created_status d)))] t rows1 of
                            Inl e \<Rightarrow> (transaction_failed e, s1, [Created t, Posted p])
                          | Inr (t2, rows2) \<Rightarrow>
                              (Response 200 (CreatedJson t2 (redirectUrl d)),
                               s\<lparr>transactions := rows2\<rparr>,
                               [Created t, Posted p, Updated t2]))))))"

subsection \<open>\<^verbatim>\<open>GET /api/transactions/:id\<close>\<close>

text \<open>The external identifier is tested for truth: null and the empty string are
  false.\<close>

definition get_api_transactions_id ::
  "processor \<Rightarrow> int \<Rightarrow> db \<Rightarrow> response \<times> db \<times> event list" where
  "get_api_transactions_id px k s =
     (case Transaction_findByPk k (transactions s) of
        None \<Rightarrow> (Response 404 (ErrorJson ''Transaction not found''), s, [])
      | Some t \<Rightarrow>
          (case moonpayTransactionId t of
             None \<Rightarrow> (Response 200 (TransactionJson t), s, [])
           | Some x \<Rightarrow>
               if x = [] then (Response 200 (TransactionJson t), s, [])
               else
                 (let url = MOONPAY_BASE_URL @ ''/v1/transactions/'' @ x in
                  case axios_get px url of
                    Inl e \<Rightarrow>
                      (Response 500 (ErrorJson ''Failed to fetch transaction''), s, [Got url])
                  | Inr d \<Rightarrow>
                      (case Transaction_update
                              [Set_status (fetched_status d),
                               Set_cryptoAmount (fetched_cryptoAmount d)] t
                              (transactions s) of
                         Inl e \<Rightarrow>
                           (Response 500 (ErrorJson ''Failed to fetch transaction''), s,
                            [Got url])
                       | Inr (t2, rows2) \<Rightarrow>
                           (Response 200 (TransactionJson t2), s\<lparr>transactions := rows2\<rparr>,
                            [Got url, Updated t2])))))"

subsection \<open>\<^verbatim>\<open>POST /api/webhook/moonpay\<close>\<close>

text \<open>Reading \<^verbatim>\<open>data.id\<close> when the body has no \<^verbatim>\<open>data\<close> throws, and the handler
  catches it.\<close>

definition post_api_webhook_moonpay ::
  "webhook_request \<Rightarrow> db \<Rightarrow> response \<times> db \<times> event list" where
  "post_api_webhook_moonpay req s =
     (case data req of
        None \<Rightarrow> (Response 500 (Text ''Error processing webhook''), s, [])
      | Some d \<Rightarrow>
          (case Transaction_findOne (data_id d) (transactions s) of
             None \<Rightarrow> (Response 200 (Text ''OK''), s, [])
           | Some t \<Rightarrow>
               (case Transaction_update
                       [Set_status (data_status d),
                        Set_cryptoAmount (data_cryptoAmount d)] t (transactions s) of
                  Inl e \<Rightarrow> (Response 500 (Text ''Error processing webhook''), s, [])
                | Inr (t2, rows2) \<Rightarrow>
                    (Response 200 (Text ''OK''), s\<lparr>transactions := rows2\<rparr>, [Updated t2]))))"

subsection \<open>The server over time\<close>

text \<open>A request as the server receives it, with the processor's behaviour at that
  moment. \<open>serve\<close> handles requests one after the other and returns the database.\<close>

datatype request =
  PostTransactions processor transaction_request
  | GetTransaction processor int
  | PostWebhook webhook_request

fun handle :: "request \<Rightarrow> db \<Rightarrow> response \<times> db \<times> event list" where
  "handle (PostTransactions px req) s = post_api_transactions px req s"
| "handle (GetTransaction px k) s = get_api_transactions_id px k s"
| "handle (PostWebhook req) s = post_api_webhook_moonpay req s"

definition serve :: "request list \<Rightarrow> db \<Rightarrow> db" where
  "serve rs s = fold (\<lambda>r s. fst (snd (handle r s))) rs s"

subsection \<open>Notions the statements use\<close>

text \<open>The row that \<^verbatim>\<open>POST /api/transactions\<close> gives to \<^verbatim>\<open>Transaction.create\<close> for a
  request, with the key the table gives it.\<close>

definition pending :: "transaction_request \<Rightarrow> transaction list \<Rightarrow> transaction" where
  "pending req rows =
     \<lparr>transaction_id = next_id rows, userId = req_userId req, amount = req_amount req,
      currency = set_string (req_currency req) None, cryptoAmount = None,
      cryptoCurrency = set_string (req_cryptoCurrency req) None, status = Some ''pending'',
      paymentMethod = set_string (req_paymentMethod req) None,
      moonpayTransactionId = None\<rparr>"

text \<open>What no handler writes to a row that exists: the key, the columns taken from the
  request that created it, and the external identifier.\<close>

definition frozen ::
  "transaction \<Rightarrow>
   int \<times> int option \<times> number option \<times> string option \<times> string option \<times> string option \<times>
   string option" where
  "frozen t =
     (transaction_id t, userId t, amount t, currency t, cryptoCurrency t, paymentMethod t,
      moonpayTransactionId t)"

text \<open>The integer that a string of decimal digits denotes, with a minus sign first for a
  negative one.\<close>

definition digit_value :: "char \<Rightarrow> nat" where
  "digit_value c = of_char c - 48"

definition decimal :: "string \<Rightarrow> nat" where
  "decimal cs = foldl (\<lambda>n c. 10 * n + digit_value c) 0 cs"

definition integer_of :: "string \<Rightarrow> int" where
  "integer_of cs =
     (case cs of
        [] \<Rightarrow> 0
      | c # ds \<Rightarrow> if c = CHR ''-'' then - int (decimal ds) else int (decimal cs))"

fun processor_call :: "event \<Rightarrow> bool" where
  "processor_call (Posted p) = True"
| "processor_call (Got url) = True"
| "processor_call (Created t) = False"
| "processor_call (Updated t) = False"

fun table_write :: "event \<Rightarrow> bool" where
  "table_write (Created t) = True"
| "table_write (Updated t) = True"
| "table_write (Posted p) = False"
| "table_write (Got url) = False"

subsection \<open>Test data\<close>

text \<open>The request of \<^verbatim>\<open>src/test.js\<close>, the user it assumes, and a processor that answers
  as the specification's example does.\<close>

definition test_user :: user where
  "test_user =
     \<lparr>user_id = 1, firstName = ''John'', lastName = ''Doe'', email = ''john@example.com'',
      phone = ''+254712345678'', idNumber = ''12345678''\<rparr>"

definition test_request :: transaction_request where
  "test_request =
     \<lparr>req_userId = Some 1, req_amount = Some 5000, req_currency = Value (Str ''KES''),
      req_cryptoCurrency = Value (Str ''btc''),
      req_paymentMethod = Value (Str ''mobile_money''),
      req_cardDetails = None,
      req_userDetails = Some \<lparr>walletAddress = Some ''3FZbgi29cpjq2GjdwV8eyHuJJnkLtktZc5''\<rparr>\<rparr>"

definition test_db :: db where
  "test_db = \<lparr>users = [test_user], transactions = []\<rparr>"

definition stub_post :: "moonpay_payload \<Rightarrow> error + created_data" where
  "stub_post p =
     Inr \<lparr>created_id = ''ext_1'', created_status = ''waitingPayment'',
          redirectUrl = ''https://pay/ext_1''\<rparr>"

definition stub_get :: "string \<Rightarrow> error + fetched_data" where
  "stub_get url =
     Inr \<lparr>fetched_status = Value (Str ''completed''), fetched_cryptoAmount = Value (3 / 2500)\<rparr>"

definition stub_processor :: processor where
  "stub_processor = \<lparr>axios_post = stub_post, axios_get = stub_get\<rparr>"

definition failing_post :: "moonpay_payload \<Rightarrow> error + created_data" where
  "failing_post p =
     Inl (AxiosError (Some ''Bad Request'') ''Request failed with status code 400'')"

definition failing_get :: "string \<Rightarrow> error + fetched_data" where
  "failing_get url = Inl (AxiosError None ''timeout of 0ms exceeded'')"

definition failing_processor :: processor where
  "failing_processor = \<lparr>axios_post = failing_post, axios_get = failing_get\<rparr>"

definition test_pending :: transaction where
  "test_pending =
     \<lparr>transaction_id = 1, userId = Some 1, amount = Some 5000, currency = Some ''KES'',
      cryptoAmount = None, cryptoCurrency = Some ''btc'', status = Some ''pending'',
      paymentMethod = Some ''mobile_money'', moonpayTransactionId = None\<rparr>"

definition test_accepted :: transaction where
  "test_accepted =
     test_pending\<lparr>status := Some ''waitingPayment'', moonpayTransactionId := Some ''ext_1''\<rparr>"

definition test_payload :: moonpay_payload where
  "test_payload =
     \<lparr>payload_walletAddress = Some ''3FZbgi29cpjq2GjdwV8eyHuJJnkLtktZc5'',
      currencyCode = Value (Str ''btc''), baseCurrencyAmount = Some 5000,
      baseCurrencyCode = Value (Str ''KES''), externalTransactionId = ''1'',
      customer = \<lparr>customer_firstName = ''John'', customer_lastName = ''Doe'',
                  customer_email = ''john@example.com'', phoneNumber = ''+254712345678'',
                  externalCustomerId = ''1''\<rparr>,
      payload_paymentMethod = Value (Str ''mobile_money''), payload_card = None\<rparr>"

text \<open>The card request of the handler's OpenAPI example, and what is sent for it.\<close>

definition card_request :: transaction_request where
  "card_request =
     test_request
       \<lparr>req_paymentMethod := Value (Str ''card_payment''),
        req_cardDetails :=
          Some \<lparr>cardNumber = Some ''4242424242424242'', expiryMonth = Some ''12'',
                expiryYear = Some ''2025'', cvv = Some ''123'',
                cardholderName = Some ''John Doe''\<rparr>\<rparr>"

definition card_payload :: moonpay_payload where
  "card_payload =
     test_payload
       \<lparr>payload_paymentMethod := Value (Str ''credit_debit_card''),
        payload_card :=
          Some \<lparr>card_number = Some ''4242424242424242'', expirationMonth = Some ''12'',
                expirationYear = Some ''2025'', cvc = Some ''123'',
                card_cardholderName = Some ''John Doe''\<rparr>\<rparr>"

text \<open>A processor that accepts a transaction and answers with an empty identifier, and
  the database after \<open>test_request\<close> was handled with it.\<close>

definition blank_post :: "moonpay_payload \<Rightarrow> error + created_data" where
  "blank_post p =
     Inr \<lparr>created_id = [], created_status = ''waitingPayment'',
          redirectUrl = ''https://pay/''\<rparr>"

definition blank_processor :: processor where
  "blank_processor = \<lparr>axios_post = blank_post, axios_get = stub_get\<rparr>"

definition blank_row :: transaction where
  "blank_row = test_pending\<lparr>status := Some ''waitingPayment'', moonpayTransactionId := Some []\<rparr>"

definition blank_db :: db where
  "blank_db = \<lparr>users = [test_user], transactions = [blank_row]\<rparr>"

text \<open>The database after \<open>test_request\<close> was accepted, then completed; a webhook body for
  that transaction and one for a transaction the table does not have.\<close>

definition accepted_db :: db where
  "accepted_db = \<lparr>users = [test_user], transactions = [test_accepted]\<rparr>"

definition test_completed :: transaction where
  "test_completed = test_accepted\<lparr>status := Some ''completed'', cryptoAmount := Some (3 / 2500)\<rparr>"

definition completed_db :: db where
  "completed_db = \<lparr>users = [test_user], transactions = [test_completed]\<rparr>"

text \<open>A table of two rows: a pending one that was never accepted, and the completed
  one.\<close>

definition two_rows_db :: db where
  "two_rows_db =
     \<lparr>users = [test_user],
      transactions = [test_pending\<lparr>transaction_id := 7\<rparr>, test_completed]\<rparr>"

text \<open>A processor that reports the transaction as failed, with a null crypto amount.\<close>

definition refunding_get :: "string \<Rightarrow> error + fetched_data" where
  "refunding_get url =
     Inr \<lparr>fetched_status = Value (Str ''failed''), fetched_cryptoAmount = Null\<rparr>"

definition refunding_processor :: processor where
  "refunding_processor = \<lparr>axios_post = failing_post, axios_get = refunding_get\<rparr>"

definition test_webhook :: webhook_request where
  "test_webhook =
     \<lparr>data = Some \<lparr>data_id = ''ext_1'', data_status = Value (Str ''failed''),
                   data_cryptoAmount = Null\<rparr>\<rparr>"

definition unknown_webhook :: webhook_request where
  "unknown_webhook =
     \<lparr>data = Some \<lparr>data_id = ''ext_9'', data_status = Value (Str ''completed''),
                   data_cryptoAmount = Value (3 / 2500)\<rparr>\<rparr>"

text \<open>A request whose currency is an object; a webhook body and a lookup answer that
  carry a status and no crypto amount; a webhook body whose status is an object.\<close>

definition object_request :: transaction_request where
  "object_request = test_request\<lparr>req_currency := Value ArrayOrObject\<rparr>"

definition partial_webhook :: webhook_request where
  "partial_webhook =
     \<lparr>data = Some \<lparr>data_id = ''ext_1'', data_status = Value (Str ''failed''),
                   data_cryptoAmount = Undefined\<rparr>\<rparr>"

definition object_webhook :: webhook_request where
  "object_webhook =
     \<lparr>data = Some \<lparr>data_id = ''ext_1'', data_status = Value ArrayOrObject,
                   data_cryptoAmount = Value (3 / 2500)\<rparr>\<rparr>"

definition partial_get :: "string \<Rightarrow> error + fetched_data" where
  "partial_get url =
     Inr \<lparr>fetched_status = Value (Str ''failed''), fetched_cryptoAmount = Undefined\<rparr>"

definition partial_processor :: processor where
  "partial_processor = \<lparr>axios_post = failing_post, axios_get = partial_get\<rparr>"

text \<open>A table whose greatest key is 41, so that the next row has key 42.\<close>

definition later_db :: db where
  "later_db =
     \<lparr>users = [test_user], transactions = [test_completed\<lparr>transaction_id := 41\<rparr>]\<rparr>"

section \<open>Properties\<close>

subsection \<open>Decimal strings\<close>

text \<open>\<open>toString\<close> writes an integer in decimal: reading the string back gives the
  integer, so two integers with the same string are equal.\<close>

lemma below_ten:
  "(k::nat) < 10 \<Longrightarrow>
   k = 0 \<or> k = 1 \<or> k = 2 \<or> k = 3 \<or> k = 4 \<or> k = 5 \<or> k = 6 \<or> k = 7 \<or> k = 8 \<or> k = 9"
  by arith

lemma digit_value_digit: "digit_value (digit d) = d mod 10"
proof -
  have "d mod 10 < 10" by simp
  then show ?thesis
    using below_ten [of "d mod 10"]
    by (auto simp: digit_value_def digit_def)
qed

lemma decimal_snoc: "decimal (cs @ [c]) = 10 * decimal cs + digit_value c"
  by (simp add: decimal_def)

lemma decimal_digits: "decimal (digits n) = n"
proof (induction n rule: digits.induct)
  case (1 n)
  show ?case
  proof (cases "n < 10")
    case True
    then show ?thesis
      by (subst digits.simps) (simp add: decimal_def digit_value_digit)
  next
    case False
    then have "decimal (digits (n div 10)) = n div 10" using 1 by simp
    with False show ?thesis
      by (subst digits.simps) (simp add: decimal_snoc digit_value_digit)
  qed
qed

lemma digit_not_minus: "digit d \<noteq> CHR ''-''"
proof -
  have "d mod 10 < 10" by simp
  then show ?thesis
    using below_ten [of "d mod 10"]
    by (auto simp: digit_def)
qed

lemma digits_first: "\<exists>d ds. digits n = digit d # ds"
proof (induction n rule: digits.induct)
  case (1 n)
  show ?case
  proof (cases "n < 10")
    case True
    then show ?thesis by (subst digits.simps) auto
  next
    case False
    then obtain d ds where "digits (n div 10) = digit d # ds" using 1 by blast
    with False show ?thesis by (subst digits.simps) auto
  qed
qed

lemma integer_of_toString: "integer_of (toString i) = i"
proof (cases "i < 0")
  case True
  then show ?thesis
    by (simp add: integer_of_def toString_def decimal_digits)
next
  case False
  obtain d ds where d: "digits (nat i) = digit d # ds"
    using digits_first by blast
  have "int (decimal (digits (nat i))) = i"
    using False by (simp add: decimal_digits)
  then show ?thesis
    using False d digit_not_minus [of d]
    by (simp add: integer_of_def toString_def)
qed

lemma toString_inj: "toString i = toString j \<Longrightarrow> i = j"
  by (metis integer_of_toString)


subsection \<open>The table and the mapper\<close>

text \<open>The model definition forbids null nowhere, so the only violations are arrays and
  objects given to string attributes.\<close>

lemma validate_malformed: "validate checked vals t = map attribute_of (filter malformed vals)"
  by (simp add: validate_def Transaction_init_def split: attribute.splits)

lemma malformed_simps [simp]:
  "malformed (Set_userId i) = False"
  "malformed (Set_amount n) = False"
  "malformed (Set_cryptoAmount n) = False"
  "malformed (Set_currency v) = (v = Value ArrayOrObject)"
  "malformed (Set_cryptoCurrency v) = (v = Value ArrayOrObject)"
  "malformed (Set_status v) = (v = Value ArrayOrObject)"
  "malformed (Set_paymentMethod v) = (v = Value ArrayOrObject)"
  "malformed (Set_moonpayTransactionId v) = (v = Value ArrayOrObject)"
  by (simp_all add: malformed_def Transaction_init_def)

lemma malformed_given: "malformed v \<Longrightarrow> is_given v"
  by (cases v) auto

lemma assign_not_given: "\<not> is_given v \<Longrightarrow> assign v t = t"
  by (cases v) auto

lemma fold_assign_given: "fold assign (filter is_given vals) t = fold assign vals t"
  by (induction vals arbitrary: t) (simp_all add: assign_not_given)

lemma filter_malformed_given: "filter malformed (filter is_given vals) = filter malformed vals"
  by (induction vals) (auto dest: malformed_given)

lemma Transaction_create_Inr:
  assumes "\<forall>v \<in> set vals. \<not> malformed v"
  shows "Transaction_create vals rows =
     Inr (build (next_id rows) vals, rows @ [build (next_id rows) vals])"
proof -
  have "filter malformed vals = []"
    using assms by (simp add: filter_empty_conv)
  then show ?thesis
    by (simp add: Transaction_create_def validate_malformed Let_def)
qed

lemma Transaction_create_Inl:
  assumes "v \<in> set vals" and "malformed v"
  shows "\<exists>a as. Transaction_create vals rows = Inl (ValidationError (a # as))"
proof -
  have "filter malformed vals \<noteq> []"
    using assms by (auto simp: filter_empty_conv)
  then obtain a as where "map attribute_of (filter malformed vals) = a # as"
    by (cases "filter malformed vals") auto
  then show ?thesis
    by (simp add: Transaction_create_def validate_malformed Let_def)
qed

lemma Transaction_update_Inr:
  assumes "\<forall>v \<in> set vals. \<not> malformed v"
  shows "Transaction_update vals t rows =
     Inr (fold assign vals t,
          map (\<lambda>r. if transaction_id r = transaction_id t then fold assign vals r else r) rows)"
proof -
  have "filter malformed vals = []"
    using assms by (simp add: filter_empty_conv)
  moreover have "filter malformed (filter is_given vals) = []"
    using assms by (simp add: filter_empty_conv)
  ultimately show ?thesis
    by (simp add: Transaction_update_def validate_malformed Let_def fold_assign_given
        del: filter_filter)
qed

lemma Transaction_update_Inl:
  assumes "v \<in> set vals" and "malformed v"
  shows "\<exists>a as. Transaction_update vals t rows = Inl (ValidationError (a # as))"
proof -
  have "filter malformed vals \<noteq> []"
    using assms by (auto simp: filter_empty_conv)
  then obtain a as where
    "map attribute_of (filter malformed (filter is_given vals)) = a # as"
    by (cases "filter malformed vals") (auto simp: filter_malformed_given simp del: filter_filter)
  then show ?thesis
    by (simp add: Transaction_update_def validate_malformed Let_def del: filter_filter)
qed

text \<open>A new key is greater than every key of the table.\<close>

lemma fold_max_ge: "(a::int) \<le> fold max xs a"
  by (induction xs arbitrary: a) (auto intro: order_trans [OF max.cobounded2])

lemma fold_max_mem: "x \<in> set xs \<Longrightarrow> (x::int) \<le> fold max xs a"
  by (induction xs arbitrary: a) (auto intro: order_trans [OF max.cobounded1 fold_max_ge])

lemma next_id_fresh: "r \<in> set rows \<Longrightarrow> transaction_id r < next_id rows"
  using fold_max_mem [of "transaction_id r" "map transaction_id rows" 0]
  by (simp add: next_id_def)

lemma transaction_id_assign [simp]: "transaction_id (assign a t) = transaction_id t"
  by (cases a) simp_all

lemma transaction_id_fold_assign [simp]:
  "transaction_id (fold assign vals t) = transaction_id t"
  by (induction vals arbitrary: t) simp_all

lemma transaction_id_build [simp]: "transaction_id (build k vals) = k"
  by (simp add: build_def)

lemma update_fresh_rows:
  "map (\<lambda>r. if transaction_id r = next_id rows then f r else r) rows = rows"
proof (rule map_idI)
  fix r assume "r \<in> set rows"
  then have "transaction_id r \<noteq> next_id rows"
    using next_id_fresh [of r rows] by simp
  then show "(if transaction_id r = next_id rows then f r else r) = r" by simp
qed

lemma Transaction_update_keys:
  assumes "Transaction_update vals t rows = Inr (t', rows')"
  shows "map transaction_id rows' = map transaction_id rows"
proof -
  have "rows' =
      map (\<lambda>r. if transaction_id r = transaction_id t
                then fold assign (filter is_given vals) r else r) rows"
    using assms by (auto simp: Transaction_update_def Let_def split: list.splits)
  then show ?thesis
    by (simp add: comp_def if_distrib [of transaction_id])
qed

lemma findByPk_key: "Transaction_findByPk k rows = Some t \<Longrightarrow> transaction_id t = k"
  by (auto simp: Transaction_findByPk_def find_Some_iff)

lemma findByPk_update:
  assumes "\<And>r. transaction_id (f r) = transaction_id r"
  shows "Transaction_findByPk k (map (\<lambda>r. if transaction_id r = k then f r else r) rows) =
           map_option f (Transaction_findByPk k rows)"
  using assms by (induction rows) (simp_all add: Transaction_findByPk_def)

lemma findOne_Some:
  "Transaction_findOne e rows = Some t \<Longrightarrow> t \<in> set rows \<and> moonpayTransactionId t = Some e"
  by (auto simp: Transaction_findOne_def find_Some_iff)

lemma update_one_row:
  assumes "distinct (map transaction_id rows)" and "i < length rows"
  shows "map (\<lambda>r. if transaction_id r = transaction_id (rows ! i) then f r else r) rows =
           rows[i := f (rows ! i)]"
proof (rule nth_equalityI)
  show "length (map (\<lambda>r. if transaction_id r = transaction_id (rows ! i) then f r else r) rows) =
      length (rows[i := f (rows ! i)])"
    by simp
next
  fix j
  assume "j < length (map (\<lambda>r. if transaction_id r = transaction_id (rows ! i) then f r else r) rows)"
  then have j: "j < length rows" by simp
  have "transaction_id (rows ! j) = transaction_id (rows ! i) \<longleftrightarrow> j = i"
    using assms j nth_eq_iff_index_eq [of "map transaction_id rows" j i] by simp
  then show "map (\<lambda>r. if transaction_id r = transaction_id (rows ! i) then f r else r) rows ! j =
      rows[i := f (rows ! i)] ! j"
    using j by (auto simp: nth_list_update)
qed

lemma set_column_of_option: "set_column (of_option v) None = v"
  by (cases v) simp_all

subsection \<open>The handlers, case by case\<close>

lemma post_api_transactions_found:
  assumes "User_findByPk (req_userId req) (users s) = Some u"
    and "req_currency req \<noteq> Value ArrayOrObject"
    and "req_cryptoCurrency req \<noteq> Value ArrayOrObject"
    and "req_paymentMethod req \<noteq> Value ArrayOrObject"
  shows "post_api_transactions px req s =
     (let t = pending req (transactions s) in
      case req_userDetails req of
        None \<Rightarrow>
          (transaction_failed (TypeError ''walletAddress''),
           s\<lparr>transactions := transactions s @ [t]\<rparr>, [Created t])
      | Some ud \<Rightarrow>
          (case axios_post px (moonpayPayload req ud u t) of
             Inl e \<Rightarrow>
               (transaction_failed e, s\<lparr>transactions := transactions s @ [t]\<rparr>,
                [Created t, Posted (moonpayPayload req ud u t)])
           | Inr d \<Rightarrow>
               (Response 200
                  (CreatedJson
                     (t\<lparr>status := Some (created_status d),
                        moonpayTransactionId := Some (created_id d)\<rparr>)
                     (redirectUrl d)),
                s\<lparr>transactions := transactions s @
                   [t\<lparr>status := Some (created_status d),
                      moonpayTransactionId := Some (created_id d)\<rparr>]\<rparr>,
                [Created t, Posted (moonpayPayload req ud u t),
                 Updated (t\<lparr>status := Some (created_status d),
                            moonpayTransactionId := Some (created_id d)\<rparr>)])))"
proof -
  let ?vals = "[Set_userId (of_option (req_userId req)), Set_amount (of_option (req_amount req)),
      Set_currency (req_currency req), Set_cryptoCurrency (req_cryptoCurrency req),
      Set_status (Value (Str ''pending'')), Set_paymentMethod (req_paymentMethod req)]"
  have b: "build (next_id (transactions s)) ?vals = pending req (transactions s)"
    by (simp add: build_def pending_def set_column_of_option)
  have c: "Transaction_create ?vals (transactions s) =
      Inr (pending req (transactions s), transactions s @ [pending req (transactions s)])"
    using Transaction_create_Inr [of ?vals "transactions s"] assms(2-4) by (simp add: b)
  have i: "transaction_id (pending req (transactions s)) = next_id (transactions s)"
    by (simp add: pending_def)
  have u: "Transaction_update
        [Set_moonpayTransactionId (Value (Str a)), Set_status (Value (Str b))]
        (pending req (transactions s)) (transactions s @ [pending req (transactions s)]) =
      Inr (pending req (transactions s)\<lparr>status := Some b, moonpayTransactionId := Some a\<rparr>,
           transactions s @
           [pending req (transactions s)\<lparr>status := Some b, moonpayTransactionId := Some a\<rparr>])"
    for a b
    by (simp add: Transaction_update_Inr i update_fresh_rows)
  show ?thesis
    unfolding post_api_transactions_def
    by (simp add: assms(1) c u Let_def split: option.splits sum.splits)
qed

lemma post_api_transactions_rejected:
  assumes "User_findByPk (req_userId req) (users s) = Some u"
    and "req_currency req = Value ArrayOrObject \<or> req_cryptoCurrency req = Value ArrayOrObject \<or>
         req_paymentMethod req = Value ArrayOrObject"
  shows "\<exists>a as. post_api_transactions px req s =
           (transaction_failed (ValidationError (a # as)), s, [])"
proof -
  let ?vals = "[Set_userId (of_option (req_userId req)), Set_amount (of_option (req_amount req)),
      Set_currency (req_currency req), Set_cryptoCurrency (req_cryptoCurrency req),
      Set_status (Value (Str ''pending'')), Set_paymentMethod (req_paymentMethod req)]"
  have "\<exists>v \<in> set ?vals. malformed v"
    using assms(2) by simp
  then obtain v where "v \<in> set ?vals" "malformed v"
    by (rule bexE)
  then obtain a as where
    "Transaction_create ?vals (transactions s) = Inl (ValidationError (a # as))"
    using Transaction_create_Inl by blast
  then show ?thesis
    by (auto simp: post_api_transactions_def assms(1))
qed

lemma post_api_transactions_rows:
  assumes "post_api_transactions px req s = (res, s', evs)"
  shows "transactions s' = transactions s \<or> (\<exists>t. transactions s' = transactions s @ [t])"
proof (cases "User_findByPk (req_userId req) (users s)")
  case None
  then show ?thesis using assms by (auto simp: post_api_transactions_def)
next
  case (Some u)
  show ?thesis
  proof (cases "req_currency req = Value ArrayOrObject \<or>
      req_cryptoCurrency req = Value ArrayOrObject \<or> req_paymentMethod req = Value ArrayOrObject")
    case True
    then show ?thesis
      using assms post_api_transactions_rejected [OF Some True, of px] by auto
  next
    case False
    then show ?thesis
      using assms
      by (auto simp: post_api_transactions_found [OF Some] Let_def
          split: option.splits sum.splits)
  qed
qed

lemma post_api_transactions_new_row:
  assumes "post_api_transactions px req s = (res, s1, evs)"
    and "length (transactions s) \<le> i" and "i < length (transactions s1)"
  shows "\<exists>t evs'.
           evs = Created t # evs' \<and> moonpayTransactionId t = None \<and>
           (transactions s1 ! i = t \<and> (\<forall>x. Updated x \<notin> set evs') \<or>
            (\<exists>p d. evs' = [Posted p, Updated (transactions s1 ! i)] \<and>
                   axios_post px p = Inr d \<and>
                   transactions s1 ! i =
                     t\<lparr>status := Some (created_status d),
                       moonpayTransactionId := Some (created_id d)\<rparr>))"
proof (cases "User_findByPk (req_userId req) (users s)")
  case None
  then show ?thesis using assms by (auto simp: post_api_transactions_def)
next
  case (Some u)
  show ?thesis
  proof (cases "req_currency req = Value ArrayOrObject \<or>
      req_cryptoCurrency req = Value ArrayOrObject \<or> req_paymentMethod req = Value ArrayOrObject")
    case True
    then show ?thesis
      using assms post_api_transactions_rejected [OF Some True, of px] by auto
  next
    case False
    have i: "i = length (transactions s)"
      using assms post_api_transactions_rows [OF assms(1)] by auto
    have n: "moonpayTransactionId (pending req (transactions s)) = None"
      by (simp add: pending_def)
    show ?thesis
      using assms(1) n False
      by (auto simp: post_api_transactions_found [OF Some] Let_def i
          split: option.splits sum.splits)
  qed
qed


lemma update_status_amount:
  assumes "v \<noteq> Value ArrayOrObject"
  shows "Transaction_update [Set_status v, Set_cryptoAmount w] t rows =
     Inr (t\<lparr>status := set_string v (status t), cryptoAmount := set_column w (cryptoAmount t)\<rparr>,
          map (\<lambda>r. if transaction_id r = transaction_id t
                    then r\<lparr>status := set_string v (status r),
                           cryptoAmount := set_column w (cryptoAmount r)\<rparr>
                    else r) rows)"
  using assms by (simp add: Transaction_update_Inr)

lemma update_status_rejected:
  "\<exists>a as. Transaction_update [Set_status (Value ArrayOrObject), Set_cryptoAmount w] t rows =
     Inl (ValidationError (a # as))"
  using Transaction_update_Inl [of "Set_status (Value ArrayOrObject)"] by simp

lemma get_api_transactions_id_found:
  assumes "Transaction_findByPk k (transactions s) = Some t"
    and "moonpayTransactionId t = Some x" and "x \<noteq> []"
  shows "get_api_transactions_id px k s =
     (case axios_get px (MOONPAY_BASE_URL @ ''/v1/transactions/'' @ x) of
        Inl e \<Rightarrow>
          (Response 500 (ErrorJson ''Failed to fetch transaction''), s,
           [Got (MOONPAY_BASE_URL @ ''/v1/transactions/'' @ x)])
      | Inr d \<Rightarrow>
          if fetched_status d = Value ArrayOrObject
          then (Response 500 (ErrorJson ''Failed to fetch transaction''), s,
                [Got (MOONPAY_BASE_URL @ ''/v1/transactions/'' @ x)])
          else
            (Response 200
               (TransactionJson
                  (t\<lparr>status := set_string (fetched_status d) (status t),
                     cryptoAmount := set_column (fetched_cryptoAmount d) (cryptoAmount t)\<rparr>)),
             s\<lparr>transactions :=
                 map (\<lambda>r. if transaction_id r = k
                           then r\<lparr>status := set_string (fetched_status d) (status r),
                                  cryptoAmount :=
                                    set_column (fetched_cryptoAmount d) (cryptoAmount r)\<rparr>
                           else r) (transactions s)\<rparr>,
             [Got (MOONPAY_BASE_URL @ ''/v1/transactions/'' @ x),
              Updated (t\<lparr>status := set_string (fetched_status d) (status t),
                         cryptoAmount :=
                           set_column (fetched_cryptoAmount d) (cryptoAmount t)\<rparr>)]))"
proof (cases "axios_get px (MOONPAY_BASE_URL @ ''/v1/transactions/'' @ x)")
  case (Inl e)
  then show ?thesis
    using assms by (simp add: get_api_transactions_id_def Let_def)
next
  case (Inr d)
  show ?thesis
  proof (cases "fetched_status d = Value ArrayOrObject")
    case True
    obtain a as where
      "Transaction_update [Set_status (fetched_status d), Set_cryptoAmount (fetched_cryptoAmount d)]
         t (transactions s) = Inl (ValidationError (a # as))"
      using update_status_rejected True by metis
    then show ?thesis
      using assms Inr True by (simp add: get_api_transactions_id_def Let_def)
  next
    case False
    then show ?thesis
      using assms Inr findByPk_key [OF assms(1)]
      by (simp add: get_api_transactions_id_def Let_def update_status_amount)
  qed
qed

lemma post_api_webhook_moonpay_found:
  assumes "data req = Some d"
    and "Transaction_findOne (data_id d) (transactions s) = Some t"
  shows "post_api_webhook_moonpay req s =
     (if data_status d = Value ArrayOrObject
      then (Response 500 (Text ''Error processing webhook''), s, [])
      else
        (Response 200 (Text ''OK''),
         s\<lparr>transactions :=
             map (\<lambda>r. if transaction_id r = transaction_id t
                       then r\<lparr>status := set_string (data_status d) (status r),
                              cryptoAmount := set_column (data_cryptoAmount d) (cryptoAmount r)\<rparr>
                       else r) (transactions s)\<rparr>,
         [Updated (t\<lparr>status := set_string (data_status d) (status t),
                    cryptoAmount := set_column (data_cryptoAmount d) (cryptoAmount t)\<rparr>)]))"
proof (cases "data_status d = Value ArrayOrObject")
  case True
  obtain a as where
    "Transaction_update [Set_status (data_status d), Set_cryptoAmount (data_cryptoAmount d)]
       t (transactions s) = Inl (ValidationError (a # as))"
    using update_status_rejected True by metis
  then show ?thesis
    using assms True by (simp add: post_api_webhook_moonpay_def)
next
  case False
  then show ?thesis
    using assms by (simp add: post_api_webhook_moonpay_def update_status_amount)
qed

subsection \<open>What the handlers leave alone\<close>

lemma frozen_update [simp]: "frozen (r\<lparr>status := a, cryptoAmount := b\<rparr>) = frozen r"
  by (simp add: frozen_def)

lemma get_api_transactions_id_frozen:
  assumes "get_api_transactions_id px k s = (res, s', evs)"
  shows "length (transactions s') = length (transactions s) \<and>
         (\<forall>i < length (transactions s).
            frozen (transactions s' ! i) = frozen (transactions s ! i))"
proof (cases "Transaction_findByPk k (transactions s)")
  case None
  then show ?thesis using assms by (auto simp: get_api_transactions_id_def)
next
  case (Some t)
  show ?thesis
  proof (cases "moonpayTransactionId t")
    case None
    then show ?thesis using assms Some by (auto simp: get_api_transactions_id_def)
  next
    case (Some x)
    show ?thesis
    proof (cases "x = []")
      case True
      then show ?thesis
        using assms Some \<open>Transaction_findByPk k (transactions s) = Some t\<close>
        by (auto simp: get_api_transactions_id_def)
    next
      case False
      then show ?thesis
        using assms
        by (auto simp: get_api_transactions_id_found
            [OF \<open>Transaction_findByPk k (transactions s) = Some t\<close> Some False]
            split: sum.splits if_splits)
    qed
  qed
qed

lemma post_api_webhook_moonpay_frozen:
  assumes "post_api_webhook_moonpay req s = (res, s', evs)"
  shows "length (transactions s') = length (transactions s) \<and>
         (\<forall>i < length (transactions s).
            frozen (transactions s' ! i) = frozen (transactions s ! i))"
proof (cases "data req")
  case None
  then show ?thesis using assms by (auto simp: post_api_webhook_moonpay_def)
next
  case (Some d)
  show ?thesis
  proof (cases "Transaction_findOne (data_id d) (transactions s)")
    case None
    then show ?thesis using assms Some by (auto simp: post_api_webhook_moonpay_def)
  next
    case (Some t)
    then show ?thesis
      using assms
      by (auto simp: post_api_webhook_moonpay_found [OF \<open>data req = Some d\<close> Some]
          split: if_splits)
  qed
qed

lemma handle_frozen:
  assumes "handle r s = (res, s', evs)" and "i < length (transactions s)"
  shows "i < length (transactions s') \<and>
         frozen (transactions s' ! i) = frozen (transactions s ! i)"
proof (cases r)
  case (PostTransactions px req)
  then show ?thesis
    using assms post_api_transactions_rows [of px req s res s' evs]
    by (auto simp: nth_append)
next
  case (GetTransaction px k)
  then show ?thesis
    using assms get_api_transactions_id_frozen [of px k s res s' evs]
    by auto
next
  case (PostWebhook req)
  then show ?thesis
    using assms post_api_webhook_moonpay_frozen [of req s res s' evs]
    by auto
qed

lemma serve_frozen:
  "i < length (transactions s) \<Longrightarrow>
   i < length (transactions (serve rs s)) \<and>
   frozen (transactions (serve rs s) ! i) = frozen (transactions s ! i)"
proof (induction rs arbitrary: s)
  case Nil
  then show ?case by (simp add: serve_def)
next
  case (Cons r rs)
  obtain res s1 evs where h: "handle r s = (res, s1, evs)"
    by (metis prod_cases3)
  have 1: "i < length (transactions s1) \<and> frozen (transactions s1 ! i) = frozen (transactions s ! i)"
    using handle_frozen [OF h Cons.prems] .
  have 2: "serve (r # rs) s = serve rs s1"
    by (simp add: serve_def h)
  show ?case
    using Cons.IH [of s1] 1 2 by simp
qed

lemma handle_distinct_keys:
  assumes "handle r s = (res, s', evs)"
    and "distinct (map transaction_id (transactions s))"
  shows "distinct (map transaction_id (transactions s'))"
proof (cases r)
  case (PostTransactions px req)
  have "transactions s' = transactions s \<or>
      (\<exists>t. transactions s' = transactions s @ [t] \<and>
           transaction_id t = next_id (transactions s))"
  proof (cases "User_findByPk (req_userId req) (users s)")
    case None
    then show ?thesis
      using assms PostTransactions by (auto simp: post_api_transactions_def)
  next
    case (Some u)
    show ?thesis
    proof (cases "req_currency req = Value ArrayOrObject \<or>
        req_cryptoCurrency req = Value ArrayOrObject \<or>
        req_paymentMethod req = Value ArrayOrObject")
      case True
      then show ?thesis
        using assms PostTransactions post_api_transactions_rejected [OF Some True, of px]
        by auto
    next
      case False
      then show ?thesis
        using assms PostTransactions
        by (auto simp: post_api_transactions_found [OF Some] Let_def pending_def
            split: option.splits sum.splits)
    qed
  qed
  moreover have "next_id (transactions s) \<notin> transaction_id ` set (transactions s)"
    using next_id_fresh by fastforce
  ultimately show ?thesis
    using assms(2) by auto
next
  case (GetTransaction px k)
  then show ?thesis
    using assms
    by (auto simp: get_api_transactions_id_def Let_def
        dest: Transaction_update_keys split: option.splits sum.splits if_splits)
next
  case (PostWebhook req)
  then show ?thesis
    using assms
    by (auto simp: post_api_webhook_moonpay_def
        dest: Transaction_update_keys split: option.splits sum.splits)
qed


lemma amount_fold_assign:
  "\<forall>v. Set_amount v \<in> set vals \<longrightarrow> v = Undefined \<or> v = Null \<Longrightarrow> amount t = None \<Longrightarrow>
   amount (fold assign vals t) = None"
proof (induction vals arbitrary: t)
  case Nil
  then show ?case by simp
next
  case (Cons a vals)
  then show ?case by (cases a) auto
qed

lemma currency_fold_assign:
  "\<forall>v. Set_currency v \<in> set vals \<longrightarrow> v = Undefined \<or> v = Null \<Longrightarrow> currency t = None \<Longrightarrow>
   currency (fold assign vals t) = None"
proof (induction vals arbitrary: t)
  case Nil
  then show ?case by simp
next
  case (Cons a vals)
  then show ?case by (cases a) auto
qed

lemma malformed_iff: "malformed v \<longleftrightarrow> is_array_or_object v"
  by (cases v) simp_all

subsection \<open>The test data, evaluated\<close>

lemma test_user_found: "User_findByPk (req_userId test_request) (users test_db) = Some test_user"
  by (simp add: User_findByPk_def test_request_def test_db_def test_user_def)

lemma test_shapes:
  "req_currency test_request \<noteq> Value ArrayOrObject"
  "req_cryptoCurrency test_request \<noteq> Value ArrayOrObject"
  "req_paymentMethod test_request \<noteq> Value ArrayOrObject"
  by (simp_all add: test_request_def)

lemma test_pending_eq: "pending test_request [] = test_pending"
  by (simp add: pending_def test_request_def test_pending_def next_id_def)

lemma toString_1: "toString 1 = ''1''"
  by code_simp

lemma toString_42: "toString 42 = ''42''"
  by code_simp

lemma test_payload_eq:
  "moonpayPayload test_request \<lparr>walletAddress = Some ''3FZbgi29cpjq2GjdwV8eyHuJJnkLtktZc5''\<rparr>
     test_user test_pending = test_payload"
  by (simp add: moonpayPayload_def test_request_def test_user_def test_pending_def
        test_payload_def toString_1)

lemma test_userDetails:
  "req_userDetails test_request =
     Some \<lparr>walletAddress = Some ''3FZbgi29cpjq2GjdwV8eyHuJJnkLtktZc5''\<rparr>"
  by (simp add: test_request_def)

lemma test_transactions: "transactions test_db = []"
  by (simp add: test_db_def)

lemma test_accepts:
  "post_api_transactions stub_processor test_request test_db =
     (Response 200 (CreatedJson test_accepted ''https://pay/ext_1''),
      test_db\<lparr>transactions := [test_accepted]\<rparr>,
      [Created test_pending, Posted test_payload, Updated test_accepted])"
  by (simp add: post_api_transactions_found [OF test_user_found test_shapes] test_pending_eq
      Let_def test_userDetails test_payload_eq stub_processor_def stub_post_def
      test_accepted_def test_transactions)

lemma test_rejects:
  "post_api_transactions failing_processor test_request test_db =
     (Response 500 (ErrorDetailsJson ''Transaction failed'' (ResponseData ''Bad Request'')),
      test_db\<lparr>transactions := [test_pending]\<rparr>,
      [Created test_pending, Posted test_payload])"
  by (simp add: post_api_transactions_found [OF test_user_found test_shapes] test_pending_eq
      Let_def test_userDetails test_payload_eq failing_processor_def failing_post_def
      transaction_failed_def test_transactions)

lemma card_user_found: "User_findByPk (req_userId card_request) (users later_db) = Some test_user"
  by (simp add: User_findByPk_def card_request_def test_request_def later_db_def test_user_def)

lemma card_shapes:
  "req_currency card_request \<noteq> Value ArrayOrObject"
  "req_cryptoCurrency card_request \<noteq> Value ArrayOrObject"
  "req_paymentMethod card_request \<noteq> Value ArrayOrObject"
  by (simp_all add: card_request_def test_request_def)

lemma later_next_id: "next_id (transactions later_db) = 42"
  by (simp add: next_id_def later_db_def)

lemma card_accepts:
  "post_api_transactions stub_processor card_request later_db =
     (Response 200
        (CreatedJson
           (test_accepted\<lparr>transaction_id := 42, paymentMethod := Some ''card_payment''\<rparr>)
           ''https://pay/ext_1''),
      later_db\<lparr>transactions :=
         [test_completed\<lparr>transaction_id := 41\<rparr>,
          test_accepted\<lparr>transaction_id := 42, paymentMethod := Some ''card_payment''\<rparr>]\<rparr>,
      [Created (test_pending\<lparr>transaction_id := 42, paymentMethod := Some ''card_payment''\<rparr>),
       Posted (card_payload\<lparr>externalTransactionId := ''42''\<rparr>),
       Updated (test_accepted\<lparr>transaction_id := 42, paymentMethod := Some ''card_payment''\<rparr>)])"
proof -
  have p: "pending card_request [test_completed\<lparr>transaction_id := 41\<rparr>] =
      test_pending\<lparr>transaction_id := 42, paymentMethod := Some ''card_payment''\<rparr>"
    by (simp add: pending_def next_id_def card_request_def test_request_def test_pending_def)
  have d: "req_userDetails card_request =
      Some \<lparr>walletAddress = Some ''3FZbgi29cpjq2GjdwV8eyHuJJnkLtktZc5''\<rparr>"
    by (simp add: card_request_def test_request_def)
  have m: "moonpayPayload card_request
       \<lparr>walletAddress = Some ''3FZbgi29cpjq2GjdwV8eyHuJJnkLtktZc5''\<rparr> test_user
       (test_pending\<lparr>transaction_id := 42, paymentMethod := Some ''card_payment''\<rparr>) =
      card_payload\<lparr>externalTransactionId := ''42''\<rparr>"
    by (simp add: moonpayPayload_def card_request_def test_request_def test_user_def
        test_pending_def card_payload_def test_payload_def toString_1 toString_42)
  have l: "transactions later_db = [test_completed\<lparr>transaction_id := 41\<rparr>]"
    by (simp add: later_db_def)
  show ?thesis
    by (simp add: post_api_transactions_found [OF card_user_found card_shapes] p d m Let_def
        stub_processor_def stub_post_def test_accepted_def l)
qed

lemma accepted_then_completed:
  "serve [PostWebhook test_webhook, GetTransaction stub_processor 1] accepted_db = completed_db"
  by (simp add: serve_def post_api_webhook_moonpay_def get_api_transactions_id_def
      Transaction_findOne_def Transaction_findByPk_def update_status_amount Let_def
      accepted_db_def completed_db_def test_webhook_def test_completed_def test_accepted_def
      test_pending_def stub_processor_def stub_get_def MOONPAY_BASE_URL_def)

lemma completed_found:
  "Transaction_findByPk 1 (transactions completed_db) = Some test_completed"
  by (simp add: Transaction_findByPk_def completed_db_def test_completed_def
      test_accepted_def test_pending_def)

lemma completed_external_id: "moonpayTransactionId test_completed = Some ''ext_1''"
  by (simp add: test_completed_def test_accepted_def)

lemma completed_found_by_external_id:
  "Transaction_findOne ''ext_1'' (transactions completed_db) = Some test_completed"
  by (simp add: Transaction_findOne_def completed_db_def completed_external_id)


subsection \<open>Creating a transaction\<close>

text \<open>
  Claim C4. When the user of the request is not found, the response is 404 with the error
  \<^verbatim>\<open>User not found\<close>, the database is unchanged and no row is written nor the
  processor called.
\<close>

theorem unknown_user_creates_nothing:
  assumes "User_findByPk (req_userId req) (users s) = None"
  shows "post_api_transactions px req s = (Response 404 (ErrorJson ''User not found''), s, [])"
  using assms by (simp add: post_api_transactions_def)

theorem unknown_user_creates_nothing_witness:
  "User_findByPk (req_userId (test_request\<lparr>req_userId := Some 2\<rparr>)) (users test_db) = None \<and>
   post_api_transactions stub_processor (test_request\<lparr>req_userId := Some 2\<rparr>) test_db =
     (Response 404 (ErrorJson ''User not found''), test_db, [])"
proof -
  have h: "User_findByPk (req_userId (test_request\<lparr>req_userId := Some 2\<rparr>)) (users test_db) = None"
    by (simp add: User_findByPk_def test_db_def test_user_def)
  show ?thesis
    using unknown_user_creates_nothing [OF h] h by simp
qed

text \<open>
  Claim C2 as stated fails: the handler gives the fields of the body to
  \<^verbatim>\<open>Transaction.create\<close> as they come, and the mapper rejects an object given for the
  currency. The user exists, the answer is 500, and no row is created.
\<close>

theorem create_rejects_object_currency:
  "User_findByPk (req_userId object_request) (users test_db) = Some test_user \<and>
   post_api_transactions stub_processor object_request test_db =
     (Response 500
        (ErrorDetailsJson ''Transaction failed'' (Message (ValidationError [Currency]))),
      test_db, [])"
  by (simp add: post_api_transactions_def User_findByPk_def Transaction_create_def
      validate_malformed transaction_failed_def Let_def object_request_def test_request_def
      test_db_def test_user_def)

text \<open>
  Claim C2, amended. For a request whose user exists and whose currency, crypto currency
  and payment method are not arrays or objects, whatever the processor does, the first
  event of the handler is the creation of a row with status \<^verbatim>\<open>pending\<close> and no
  external identifier, under a key that no row of the table has; no other row is created,
  so a call of the processor can only come after it; and the table afterwards is the table
  before with one row more, of that key.
\<close>

theorem create_writes_pending_first:
  assumes "User_findByPk (req_userId req) (users s) = Some u"
    and "req_currency req \<noteq> Value ArrayOrObject"
    and "req_cryptoCurrency req \<noteq> Value ArrayOrObject"
    and "req_paymentMethod req \<noteq> Value ArrayOrObject"
    and "post_api_transactions px req s = (res, s', evs)"
  shows "\<exists>t t' evs'.
           evs = Created t # evs' \<and> (\<forall>x. Created x \<notin> set evs') \<and>
           status t = Some ''pending'' \<and> moonpayTransactionId t = None \<and>
           transactions s' = transactions s @ [t'] \<and>
           transaction_id t' = transaction_id t \<and>
           (\<forall>r \<in> set (transactions s). transaction_id r \<noteq> transaction_id t) \<and>
           users s' = users s"
proof -
  have fresh: "\<forall>r \<in> set (transactions s).
      transaction_id r \<noteq> transaction_id (pending req (transactions s))"
    using next_id_fresh by (fastforce simp: pending_def)
  have p: "status (pending req (transactions s)) = Some ''pending''"
    "moonpayTransactionId (pending req (transactions s)) = None"
    by (simp_all add: pending_def)
  show ?thesis
    using assms(5) fresh p
    by (auto simp: post_api_transactions_found [OF assms(1-4)] Let_def
        split: option.splits sum.splits)
qed

theorem create_writes_pending_first_witness:
  "User_findByPk (req_userId test_request) (users test_db) = Some test_user \<and>
   req_currency test_request \<noteq> Value ArrayOrObject \<and>
   req_cryptoCurrency test_request \<noteq> Value ArrayOrObject \<and>
   req_paymentMethod test_request \<noteq> Value ArrayOrObject \<and>
   (\<exists>t t' evs'.
      snd (snd (post_api_transactions failing_processor test_request test_db)) = Created t # evs' \<and>
      status t = Some ''pending'' \<and>
      transactions (fst (snd (post_api_transactions failing_processor test_request test_db))) =
        transactions test_db @ [t'] \<and>
      transaction_id t' = transaction_id t) \<and>
   (\<exists>t t' evs'.
      snd (snd (post_api_transactions stub_processor test_request test_db)) = Created t # evs' \<and>
      status t = Some ''pending'' \<and>
      transactions (fst (snd (post_api_transactions stub_processor test_request test_db))) =
        transactions test_db @ [t'] \<and>
      transaction_id t' = transaction_id t)"
  using create_writes_pending_first [OF test_user_found test_shapes test_rejects]
    create_writes_pending_first [OF test_user_found test_shapes test_accepts]
    test_user_found test_shapes
  by (auto simp: test_rejects test_accepts)

text \<open>
  Claim C8. Every payload that the handler posts to the processor carries the wallet
  address of the request's user details, the crypto currency, the amount and the currency
  of the request, and the user's first name, last name, email, phone and key. Its
  correlation key is the key of the row just created, the next key of the table, written
  in decimal: read back as a number it is that key, and so is the customer's identifier
  the user's key. It has a card exactly when the payment method of the request is
  \<^verbatim>\<open>card_payment\<close> and the request has card details, and the card's fields are then
  those details, field by field; for any other method, mobile money among them, it has no
  card.
\<close>

theorem payload_sent_to_processor:
  assumes "post_api_transactions px req s = (res, s', evs)"
    and "Posted p \<in> set evs"
  shows "\<exists>u ud t.
           User_findByPk (req_userId req) (users s) = Some u \<and>
           req_userDetails req = Some ud \<and>
           evs ! 0 = Created t \<and>
           transaction_id t = next_id (transactions s) \<and>
           payload_walletAddress p = walletAddress ud \<and>
           currencyCode p = req_cryptoCurrency req \<and>
           baseCurrencyAmount p = req_amount req \<and>
           baseCurrencyCode p = req_currency req \<and>
           externalTransactionId p = toString (transaction_id t) \<and>
           integer_of (externalTransactionId p) = transaction_id t \<and>
           customer p =
             \<lparr>customer_firstName = firstName u, customer_lastName = lastName u,
              customer_email = email u, phoneNumber = phone u,
              externalCustomerId = toString (user_id u)\<rparr> \<and>
           integer_of (externalCustomerId (customer p)) = user_id u \<and>
           payload_card p =
             (if req_paymentMethod req = Value (Str ''card_payment'')
              then map_option
                     (\<lambda>cd. \<lparr>card_number = cardNumber cd, expirationMonth = expiryMonth cd,
                            expirationYear = expiryYear cd, cvc = cvv cd,
                            card_cardholderName = cardholderName cd\<rparr>)
                     (req_cardDetails req)
              else None)"
proof (cases "User_findByPk (req_userId req) (users s)")
  case None
  then show ?thesis
    using assms by (simp add: post_api_transactions_def)
next
  case (Some u)
  show ?thesis
  proof (cases "req_currency req = Value ArrayOrObject \<or>
      req_cryptoCurrency req = Value ArrayOrObject \<or> req_paymentMethod req = Value ArrayOrObject")
    case True
    then show ?thesis
      using assms post_api_transactions_rejected [OF Some True, of px] by auto
  next
    case False
    have c: "payload_card (moonpayPayload req ud u t) =
         (if req_paymentMethod req = Value (Str ''card_payment'')
          then map_option
                 (\<lambda>cd. \<lparr>card_number = cardNumber cd, expirationMonth = expiryMonth cd,
                        expirationYear = expiryYear cd, cvc = cvv cd,
                        card_cardholderName = cardholderName cd\<rparr>)
                 (req_cardDetails req)
          else None)" for ud t
      by (simp add: moonpayPayload_def Let_def split: option.splits)
    have f: "payload_walletAddress (moonpayPayload req ud u t) = walletAddress ud"
      "currencyCode (moonpayPayload req ud u t) = req_cryptoCurrency req"
      "baseCurrencyAmount (moonpayPayload req ud u t) = req_amount req"
      "baseCurrencyCode (moonpayPayload req ud u t) = req_currency req"
      "externalTransactionId (moonpayPayload req ud u t) = toString (transaction_id t)"
      "customer (moonpayPayload req ud u t) =
         \<lparr>customer_firstName = firstName u, customer_lastName = lastName u,
          customer_email = email u, phoneNumber = phone u,
          externalCustomerId = toString (user_id u)\<rparr>" for ud t
      by (simp_all add: moonpayPayload_def Let_def split: option.splits)
    have k: "transaction_id (pending req (transactions s)) = next_id (transactions s)"
      by (simp add: pending_def)
    show ?thesis
      using assms False
      by (auto simp: post_api_transactions_found [OF Some] Some Let_def c f k
          integer_of_toString split: option.splits sum.splits)
  qed
qed

theorem payload_sent_to_processor_witness:
  "Posted (card_payload\<lparr>externalTransactionId := ''42''\<rparr>)
     \<in> set (snd (snd (post_api_transactions stub_processor card_request later_db))) \<and>
   next_id (transactions later_db) = 42 \<and>
   integer_of ''42'' = 42 \<and>
   baseCurrencyAmount card_payload = Some 5000 \<and>
   payload_card card_payload =
     Some \<lparr>card_number = Some ''4242424242424242'', expirationMonth = Some ''12'',
           expirationYear = Some ''2025'', cvc = Some ''123'',
           card_cardholderName = Some ''John Doe''\<rparr> \<and>
   Posted test_payload \<in> set (snd (snd (post_api_transactions stub_processor test_request test_db))) \<and>
   payload_card test_payload = None"
proof -
  have 1: "Posted (card_payload\<lparr>externalTransactionId := ''42''\<rparr>) \<in>
      set [Created (test_pending\<lparr>transaction_id := 42, paymentMethod := Some ''card_payment''\<rparr>),
           Posted (card_payload\<lparr>externalTransactionId := ''42''\<rparr>),
           Updated (test_accepted\<lparr>transaction_id := 42, paymentMethod := Some ''card_payment''\<rparr>)]"
    by simp
  have 2: "Posted test_payload \<in> set [Created test_pending, Posted test_payload, Updated test_accepted]"
    by simp
  have c: "payload_card card_payload =
     Some \<lparr>card_number = Some ''4242424242424242'', expirationMonth = Some ''12'',
           expirationYear = Some ''2025'', cvc = Some ''123'',
           card_cardholderName = Some ''John Doe''\<rparr> \<and> integer_of ''42'' = 42"
    using payload_sent_to_processor [OF card_accepts 1]
    by (auto simp: card_request_def test_request_def later_next_id card_payload_def)
  have t: "payload_card test_payload = None"
    using payload_sent_to_processor [OF test_accepts 2]
    by (auto simp: test_request_def)
  show ?thesis
    using c t
    by (simp add: card_accepts test_accepts later_next_id card_payload_def test_payload_def)
qed




subsection \<open>Fetching a transaction\<close>

text \<open>
  Claim C3 as stated fails twice. An external identifier that is not null but empty is
  false for the handler: a processor that accepts a transaction under an empty identifier
  leaves such a row, and fetching it calls nothing. And an answer that has no crypto
  amount overwrites none: the update leaves out a value that is undefined, and the row
  keeps the amount it had.
\<close>

theorem fetch_skips_empty_identifier:
  "post_api_transactions blank_processor test_request test_db =
     (Response 200 (CreatedJson blank_row ''https://pay/''), blank_db,
      [Created test_pending, Posted test_payload, Updated blank_row]) \<and>
   Transaction_findByPk 1 (transactions blank_db) = Some blank_row \<and>
   moonpayTransactionId blank_row \<noteq> None \<and>
   get_api_transactions_id stub_processor 1 blank_db =
     (Response 200 (TransactionJson blank_row), blank_db, []) \<and>
   Transaction_findByPk 1 (transactions completed_db) = Some test_completed \<and>
   cryptoAmount test_completed = Some (3 / 2500) \<and>
   axios_get partial_processor ''https://api.moonpay.com/v1/transactions/ext_1'' =
     Inr \<lparr>fetched_status = Value (Str ''failed''), fetched_cryptoAmount = Undefined\<rparr> \<and>
   get_api_transactions_id partial_processor 1 completed_db =
     (Response 200 (TransactionJson (test_completed\<lparr>status := Some ''failed''\<rparr>)),
      completed_db\<lparr>transactions := [test_completed\<lparr>status := Some ''failed''\<rparr>]\<rparr>,
      [Got ''https://api.moonpay.com/v1/transactions/ext_1'',
       Updated (test_completed\<lparr>status := Some ''failed''\<rparr>)]) \<and>
   cryptoAmount (test_completed\<lparr>status := Some ''failed''\<rparr>) = Some (3 / 2500)"
proof -
  have 1: "post_api_transactions blank_processor test_request test_db =
     (Response 200 (CreatedJson blank_row ''https://pay/''), blank_db,
      [Created test_pending, Posted test_payload, Updated blank_row])"
    by (simp add: post_api_transactions_found [OF test_user_found test_shapes] test_pending_eq
        Let_def test_userDetails test_payload_eq blank_processor_def blank_post_def
        blank_row_def test_transactions)
      (simp add: test_db_def blank_db_def blank_row_def)
  have 2: "Transaction_findByPk 1 (transactions blank_db) = Some blank_row"
    by (simp add: Transaction_findByPk_def blank_db_def blank_row_def test_pending_def)
  have 3: "moonpayTransactionId blank_row = Some []"
    by (simp add: blank_row_def)
  have 4: "get_api_transactions_id stub_processor 1 blank_db =
     (Response 200 (TransactionJson blank_row), blank_db, [])"
    using 2 3 by (simp add: get_api_transactions_id_def)
  have 5: "axios_get partial_processor (MOONPAY_BASE_URL @ ''/v1/transactions/'' @ ''ext_1'') =
     Inr \<lparr>fetched_status = Value (Str ''failed''), fetched_cryptoAmount = Undefined\<rparr>"
    by (simp add: partial_processor_def partial_get_def)
  have n: "''ext_1'' \<noteq> []" by simp
  have 6: "get_api_transactions_id partial_processor 1 completed_db =
     (Response 200 (TransactionJson (test_completed\<lparr>status := Some ''failed''\<rparr>)),
      completed_db\<lparr>transactions := [test_completed\<lparr>status := Some ''failed''\<rparr>]\<rparr>,
      [Got (MOONPAY_BASE_URL @ ''/v1/transactions/'' @ ''ext_1''),
       Updated (test_completed\<lparr>status := Some ''failed''\<rparr>)])"
    by (simp add: get_api_transactions_id_found [OF completed_found completed_external_id n]
        partial_processor_def partial_get_def)
      (simp add: completed_db_def test_completed_def test_accepted_def test_pending_def)
  have 7: "cryptoAmount test_completed = Some (3 / 2500)"
    by (simp add: test_completed_def)
  show ?thesis
    using 1 2 3 4 5 6 7 completed_found by (simp add: MOONPAY_BASE_URL_def)
qed

text \<open>
  Claim C3, amended. When the row found has an external identifier that is neither null nor
  the empty string, the handler calls the processor exactly once, with the URL of that
  identifier. If the call answers with data \<open>d\<close> whose status is not an array or an
  object, the row is answered and stored with the status and the crypto amount that \<open>d\<close>
  carries, whatever its status was before: a value of \<open>d\<close> replaces the stored one, null
  makes it null, and a field that \<open>d\<close> does not have leaves the stored one. If the
  status of \<open>d\<close> is an array or an object the update is rejected: the answer is 500 and
  the database is unchanged.
\<close>

theorem fetch_reconciles:
  assumes "Transaction_findByPk k (transactions s) = Some t"
    and "moonpayTransactionId t = Some x" and "x \<noteq> []"
    and "get_api_transactions_id px k s = (res, s', evs)"
  shows "filter processor_call evs = [Got (MOONPAY_BASE_URL @ ''/v1/transactions/'' @ x)] \<and>
         (\<forall>d. axios_get px (MOONPAY_BASE_URL @ ''/v1/transactions/'' @ x) = Inr d \<longrightarrow>
            (fetched_status d \<noteq> Value ArrayOrObject \<longrightarrow>
               res = Response 200
                       (TransactionJson
                          (t\<lparr>status := set_string (fetched_status d) (status t),
                             cryptoAmount :=
                               set_column (fetched_cryptoAmount d) (cryptoAmount t)\<rparr>)) \<and>
               Transaction_findByPk k (transactions s') =
                 Some (t\<lparr>status := set_string (fetched_status d) (status t),
                         cryptoAmount :=
                           set_column (fetched_cryptoAmount d) (cryptoAmount t)\<rparr>)) \<and>
            (fetched_status d = Value ArrayOrObject \<longrightarrow>
               res = Response 500 (ErrorJson ''Failed to fetch transaction'') \<and> s' = s))"
proof -
  have u: "Transaction_findByPk k
        (map (\<lambda>r. if transaction_id r = k
                  then r\<lparr>status := set_string a (status r),
                         cryptoAmount := set_column b (cryptoAmount r)\<rparr>
                  else r) (transactions s)) =
      Some (t\<lparr>status := set_string a (status t), cryptoAmount := set_column b (cryptoAmount t)\<rparr>)"
    for a b
    using findByPk_update
      [of "\<lambda>r. r\<lparr>status := set_string a (status r),
                  cryptoAmount := set_column b (cryptoAmount r)\<rparr>" k "transactions s"]
    by (simp add: assms(1))
  show ?thesis
    using assms(4)
    by (auto simp: get_api_transactions_id_found [OF assms(1-3)] u
        split: sum.splits if_splits)
qed

theorem fetch_reconciles_witness:
  "Transaction_findByPk 1 (transactions completed_db) = Some test_completed \<and>
   moonpayTransactionId test_completed = Some ''ext_1'' \<and>
   status test_completed = Some ''completed'' \<and>
   filter processor_call (snd (snd (get_api_transactions_id failing_processor 1 completed_db))) =
     [Got ''https://api.moonpay.com/v1/transactions/ext_1''] \<and>
   filter processor_call (snd (snd (get_api_transactions_id refunding_processor 1 completed_db))) =
     [Got ''https://api.moonpay.com/v1/transactions/ext_1''] \<and>
   Transaction_findByPk 1
     (transactions (fst (snd (get_api_transactions_id refunding_processor 1 completed_db)))) =
     Some (test_completed\<lparr>status := Some ''failed'', cryptoAmount := None\<rparr>) \<and>
   Transaction_findByPk 1
     (transactions (fst (snd (get_api_transactions_id partial_processor 1 completed_db)))) =
     Some (test_completed\<lparr>status := Some ''failed''\<rparr>)"
proof -
  have n: "''ext_1'' \<noteq> []" by simp
  have c: "status test_completed = Some ''completed''"
    by (simp add: test_completed_def)
  have g: "axios_get refunding_processor (MOONPAY_BASE_URL @ ''/v1/transactions/'' @ ''ext_1'') =
      Inr \<lparr>fetched_status = Value (Str ''failed''), fetched_cryptoAmount = Null\<rparr>"
    by (simp add: refunding_processor_def refunding_get_def)
  have h: "axios_get partial_processor (MOONPAY_BASE_URL @ ''/v1/transactions/'' @ ''ext_1'') =
      Inr \<lparr>fetched_status = Value (Str ''failed''), fetched_cryptoAmount = Undefined\<rparr>"
    by (simp add: partial_processor_def partial_get_def)
  have e: "get_api_transactions_id px 1 completed_db =
      (fst (get_api_transactions_id px 1 completed_db),
       fst (snd (get_api_transactions_id px 1 completed_db)),
       snd (snd (get_api_transactions_id px 1 completed_db)))" for px
    by simp
  have 1: "filter processor_call
      (snd (snd (get_api_transactions_id failing_processor 1 completed_db))) =
      [Got (MOONPAY_BASE_URL @ ''/v1/transactions/'' @ ''ext_1'')]"
    using fetch_reconciles [OF completed_found completed_external_id n e] by simp
  have 2: "filter processor_call
      (snd (snd (get_api_transactions_id refunding_processor 1 completed_db))) =
      [Got (MOONPAY_BASE_URL @ ''/v1/transactions/'' @ ''ext_1'')] \<and>
      Transaction_findByPk 1
        (transactions (fst (snd (get_api_transactions_id refunding_processor 1 completed_db)))) =
      Some (test_completed\<lparr>status := Some ''failed'', cryptoAmount := None\<rparr>)"
    using fetch_reconciles [OF completed_found completed_external_id n e, of refunding_processor] g
    by simp
  have 3: "Transaction_findByPk 1
        (transactions (fst (snd (get_api_transactions_id partial_processor 1 completed_db)))) =
      Some (test_completed\<lparr>status := Some ''failed''\<rparr>)"
    using fetch_reconciles [OF completed_found completed_external_id n e, of partial_processor] h
    by simp
  show ?thesis
    using completed_found completed_external_id c 1 2 3 by (simp add: MOONPAY_BASE_URL_def)
qed

subsection \<open>Webhooks\<close>

text \<open>
  Claim C10. A webhook whose body has no \<^verbatim>\<open>data\<close> is answered 500 with the text
  \<^verbatim>\<open>Error processing webhook\<close>, and the database is unchanged.
\<close>

theorem webhook_without_data_fails:
  assumes "data req = None"
  shows "post_api_webhook_moonpay req s =
           (Response 500 (Text ''Error processing webhook''), s, [])"
  using assms by (simp add: post_api_webhook_moonpay_def)

theorem webhook_without_data_fails_witness:
  "post_api_webhook_moonpay \<lparr>data = None\<rparr> accepted_db =
     (Response 500 (Text ''Error processing webhook''), accepted_db, [])"
  using webhook_without_data_fails [of "\<lparr>data = None\<rparr>" accepted_db] by simp

text \<open>
  Claim C5. A webhook whose external identifier is that of no row of the table leaves the
  database unchanged, writes nothing, and is answered 200 \<^verbatim>\<open>OK\<close>.
\<close>

theorem webhook_unknown_id_dropped:
  assumes "data req = Some d"
    and "\<forall>r \<in> set (transactions s). moonpayTransactionId r \<noteq> Some (data_id d)"
  shows "post_api_webhook_moonpay req s = (Response 200 (Text ''OK''), s, [])"
proof -
  have "Transaction_findOne (data_id d) (transactions s) = None"
    using assms(2) by (simp add: Transaction_findOne_def find_None_iff)
  then show ?thesis
    by (simp add: post_api_webhook_moonpay_def assms(1))
qed

theorem webhook_unknown_id_dropped_witness:
  "data unknown_webhook \<noteq> None \<and>
   moonpayTransactionId test_accepted \<noteq> Some ''ext_9'' \<and>
   post_api_webhook_moonpay unknown_webhook accepted_db =
     (Response 200 (Text ''OK''), accepted_db, [])"
proof -
  have d: "data unknown_webhook =
      Some \<lparr>data_id = ''ext_9'', data_status = Value (Str ''completed''),
            data_cryptoAmount = Value (3 / 2500)\<rparr>"
    by (simp add: unknown_webhook_def)
  have n: "\<forall>r \<in> set (transactions accepted_db).
      moonpayTransactionId r \<noteq>
      Some (data_id \<lparr>data_id = ''ext_9'', data_status = Value (Str ''completed''),
                     data_cryptoAmount = Value (3 / 2500)\<rparr>)"
    by (simp add: accepted_db_def test_accepted_def)
  show ?thesis
    using webhook_unknown_id_dropped [OF d n] d
    by (simp add: test_accepted_def)
qed

text \<open>
  Claim C6 as stated fails twice. A body whose status is an object, for a transaction that
  the table has, updates nothing: the mapper rejects the update and the answer is 500. And
  a body that has no crypto amount changes the status alone: the row keeps the amount it
  had.
\<close>

theorem webhook_rejects_object_status:
  "Transaction_findOne ''ext_1'' (transactions completed_db) = Some test_completed \<and>
   post_api_webhook_moonpay object_webhook completed_db =
     (Response 500 (Text ''Error processing webhook''), completed_db, []) \<and>
   cryptoAmount test_completed = Some (3 / 2500) \<and>
   post_api_webhook_moonpay partial_webhook completed_db =
     (Response 200 (Text ''OK''),
      completed_db\<lparr>transactions := [test_completed\<lparr>status := Some ''failed''\<rparr>]\<rparr>,
      [Updated (test_completed\<lparr>status := Some ''failed''\<rparr>)]) \<and>
   cryptoAmount (test_completed\<lparr>status := Some ''failed''\<rparr>) = Some (3 / 2500)"
proof -
  have o: "data object_webhook =
      Some \<lparr>data_id = ''ext_1'', data_status = Value ArrayOrObject,
            data_cryptoAmount = Value (3 / 2500)\<rparr>"
    by (simp add: object_webhook_def)
  have p: "data partial_webhook =
      Some \<lparr>data_id = ''ext_1'', data_status = Value (Str ''failed''),
            data_cryptoAmount = Undefined\<rparr>"
    by (simp add: partial_webhook_def)
  have 1: "post_api_webhook_moonpay object_webhook completed_db =
     (Response 500 (Text ''Error processing webhook''), completed_db, [])"
    using post_api_webhook_moonpay_found [OF o, of completed_db test_completed]
      completed_found_by_external_id by simp
  have 2: "post_api_webhook_moonpay partial_webhook completed_db =
     (Response 200 (Text ''OK''),
      completed_db\<lparr>transactions := [test_completed\<lparr>status := Some ''failed''\<rparr>]\<rparr>,
      [Updated (test_completed\<lparr>status := Some ''failed''\<rparr>)])"
    using post_api_webhook_moonpay_found [OF p, of completed_db test_completed]
      completed_found_by_external_id
    by (simp add: completed_db_def)
  have 3: "cryptoAmount test_completed = Some (3 / 2500)"
    by (simp add: test_completed_def)
  show ?thesis
    using 1 2 3 completed_found_by_external_id by simp
qed

text \<open>
  Claim C6, amended. When the lookup by external identifier finds a row \<open>t\<close> and the
  status of the payload is not an array or an object, the webhook is answered 200
  \<^verbatim>\<open>OK\<close>; every row with the key of \<open>t\<close> is that row with the status and the crypto
  amount that the payload carries (a value replaces the stored one, null makes it null, a
  field that the payload does not have leaves the stored one) and every other field as it
  was, and every row with another key is unchanged. Keys being distinct, as the primary key
  makes them, the table afterwards is the table before with the one row \<open>t\<close> replaced.
  When the status is an array or an object, the answer is 500 and nothing is written. In
  both cases the users and the number of rows are unchanged.
\<close>

theorem webhook_updates_found_row_only:
  assumes "data req = Some d"
    and "Transaction_findOne (data_id d) (transactions s) = Some t"
    and "post_api_webhook_moonpay req s = (res, s', evs)"
  shows "t \<in> set (transactions s) \<and> moonpayTransactionId t = Some (data_id d) \<and>
         users s' = users s \<and>
         length (transactions s') = length (transactions s) \<and>
         (data_status d = Value ArrayOrObject \<longrightarrow>
            res = Response 500 (Text ''Error processing webhook'') \<and> s' = s \<and> evs = []) \<and>
         (data_status d \<noteq> Value ArrayOrObject \<longrightarrow>
            res = Response 200 (Text ''OK'') \<and>
            (\<forall>i < length (transactions s).
               transactions s' ! i =
                 (if transaction_id (transactions s ! i) = transaction_id t
                  then (transactions s ! i)
                         \<lparr>status := set_string (data_status d) (status (transactions s ! i)),
                          cryptoAmount :=
                            set_column (data_cryptoAmount d)
                              (cryptoAmount (transactions s ! i))\<rparr>
                  else transactions s ! i)) \<and>
            (distinct (map transaction_id (transactions s)) \<longrightarrow>
               (\<exists>i < length (transactions s).
                  transactions s ! i = t \<and>
                  transactions s' =
                    (transactions s)
                      [i := t\<lparr>status := set_string (data_status d) (status t),
                              cryptoAmount :=
                                set_column (data_cryptoAmount d) (cryptoAmount t)\<rparr>])))"
proof -
  let ?f = "\<lambda>r. r\<lparr>status := set_string (data_status d) (status r),
                   cryptoAmount := set_column (data_cryptoAmount d) (cryptoAmount r)\<rparr>"
  have m: "t \<in> set (transactions s)" "moonpayTransactionId t = Some (data_id d)"
    using findOne_Some [OF assms(2)] by simp_all
  show ?thesis
  proof (cases "data_status d = Value ArrayOrObject")
    case True
    then show ?thesis
      using assms(3) m by (auto simp: post_api_webhook_moonpay_found [OF assms(1,2)])
  next
    case False
    have s': "transactions s' =
        map (\<lambda>r. if transaction_id r = transaction_id t then ?f r else r) (transactions s)"
      and r: "res = Response 200 (Text ''OK'')" and u: "users s' = users s"
      using assms(3) False by (auto simp: post_api_webhook_moonpay_found [OF assms(1,2)])
    have one: "\<exists>i < length (transactions s).
         transactions s ! i = t \<and> transactions s' = (transactions s)[i := ?f t]"
      if dist: "distinct (map transaction_id (transactions s))"
    proof -
      obtain i where i: "i < length (transactions s)" "transactions s ! i = t"
        using m(1) by (auto simp: in_set_conv_nth)
      have "transactions s' = (transactions s)[i := ?f (transactions s ! i)]"
        using update_one_row [OF dist i(1), of ?f] s' i(2) by simp
      then show ?thesis using i by auto
    qed
    show ?thesis
      using r u m s' one False by simp
  qed
qed

theorem webhook_updates_found_row_only_witness:
  "data test_webhook =
     Some \<lparr>data_id = ''ext_1'', data_status = Value (Str ''failed''),
           data_cryptoAmount = Null\<rparr> \<and>
   Transaction_findOne ''ext_1'' (transactions two_rows_db) = Some test_completed \<and>
   distinct (map transaction_id (transactions two_rows_db)) \<and>
   fst (post_api_webhook_moonpay test_webhook two_rows_db) = Response 200 (Text ''OK'') \<and>
   transactions (fst (snd (post_api_webhook_moonpay test_webhook two_rows_db))) =
     [test_pending\<lparr>transaction_id := 7\<rparr>,
      test_completed\<lparr>status := Some ''failed'', cryptoAmount := None\<rparr>]"
proof -
  have d: "data test_webhook =
      Some \<lparr>data_id = ''ext_1'', data_status = Value (Str ''failed''),
            data_cryptoAmount = Null\<rparr>"
    by (simp add: test_webhook_def)
  have f: "Transaction_findOne
      (data_id \<lparr>data_id = ''ext_1'', data_status = Value (Str ''failed''),
                data_cryptoAmount = Null\<rparr>)
      (transactions two_rows_db) = Some test_completed"
    by (simp add: Transaction_findOne_def two_rows_db_def test_pending_def)
      (simp add: test_completed_def test_accepted_def)
  have e: "post_api_webhook_moonpay test_webhook two_rows_db =
      (fst (post_api_webhook_moonpay test_webhook two_rows_db),
       fst (snd (post_api_webhook_moonpay test_webhook two_rows_db)),
       snd (snd (post_api_webhook_moonpay test_webhook two_rows_db)))"
    by simp
  have k: "distinct (map transaction_id (transactions two_rows_db))"
    by (simp add: two_rows_db_def test_completed_def test_accepted_def test_pending_def)
  have i: "i < length (transactions two_rows_db) \<Longrightarrow> transactions two_rows_db ! i = test_completed
      \<Longrightarrow> i = 1" for i
    by (cases i) (simp_all add: two_rows_db_def test_completed_def test_accepted_def
        test_pending_def)
  have "\<exists>i < length (transactions two_rows_db).
      transactions two_rows_db ! i = test_completed \<and>
      transactions (fst (snd (post_api_webhook_moonpay test_webhook two_rows_db))) =
        (transactions two_rows_db)[i := test_completed\<lparr>status := Some ''failed'', cryptoAmount := None\<rparr>]"
    using webhook_updates_found_row_only [OF d f e] k by simp
  then have "transactions (fst (snd (post_api_webhook_moonpay test_webhook two_rows_db))) =
      (transactions two_rows_db)[1 := test_completed\<lparr>status := Some ''failed'', cryptoAmount := None\<rparr>]"
    using i by auto
  then show ?thesis
    using d f k webhook_updates_found_row_only [OF d f e]
    by (simp add: two_rows_db_def)
qed


subsection \<open>What changes in a row, and when\<close>

text \<open>
  Claim C7. Through any sequence of requests, a row that exists keeps its place, its key,
  its user, amount, currency, crypto currency and payment method, and its external
  identifier. A row that a request adds is added by \<^verbatim>\<open>POST /api/transactions\<close>: it is
  created with no external identifier, and when the handler returns it is either as it was
  created, with no update written, or, after a call of the processor that succeeded with
  data \<open>d\<close> and the one update that follows it, as it was created but for the status
  and the external identifier, which are those of \<open>d\<close>.
\<close>

theorem only_status_and_crypto_amount_change:
  "(\<forall>i < length (transactions s).
      i < length (transactions (serve rs s)) \<and>
      frozen (transactions (serve rs s) ! i) = frozen (transactions s ! i)) \<and>
   (\<forall>res s1 evs i.
      handle r s = (res, s1, evs) \<and> length (transactions s) \<le> i \<and>
      i < length (transactions s1) \<longrightarrow>
      (\<exists>px req t evs'.
         r = PostTransactions px req \<and>
         evs = Created t # evs' \<and> moonpayTransactionId t = None \<and>
         (transactions s1 ! i = t \<and> (\<forall>x. Updated x \<notin> set evs') \<or>
          (\<exists>p d. evs' = [Posted p, Updated (transactions s1 ! i)] \<and>
                 axios_post px p = Inr d \<and>
                 transactions s1 ! i =
                   t\<lparr>status := Some (created_status d),
                     moonpayTransactionId := Some (created_id d)\<rparr>))))"
proof (intro conjI allI impI)
  fix i assume "i < length (transactions s)"
  then show "i < length (transactions (serve rs s))"
    and "frozen (transactions (serve rs s) ! i) = frozen (transactions s ! i)"
    using serve_frozen [of i s rs] by simp_all
next
  fix res s1 evs i
  assume a: "handle r s = (res, s1, evs) \<and> length (transactions s) \<le> i \<and>
      i < length (transactions s1)"
  show "\<exists>px req t evs'.
         r = PostTransactions px req \<and>
         evs = Created t # evs' \<and> moonpayTransactionId t = None \<and>
         (transactions s1 ! i = t \<and> (\<forall>x. Updated x \<notin> set evs') \<or>
          (\<exists>p d. evs' = [Posted p, Updated (transactions s1 ! i)] \<and>
                 axios_post px p = Inr d \<and>
                 transactions s1 ! i =
                   t\<lparr>status := Some (created_status d),
                     moonpayTransactionId := Some (created_id d)\<rparr>))"
  proof (cases r)
    case (PostTransactions px req)
    then show ?thesis
      using a post_api_transactions_new_row [of px req s res s1 evs i] by simp
  next
    case (GetTransaction px k)
    then show ?thesis
      using a get_api_transactions_id_frozen [of px k s res s1 evs] by simp
  next
    case (PostWebhook req)
    then show ?thesis
      using a post_api_webhook_moonpay_frozen [of req s res s1 evs] by simp
  qed
qed

theorem only_status_and_crypto_amount_change_witness:
  "frozen (transactions
      (serve [PostWebhook test_webhook, GetTransaction stub_processor 1] accepted_db) ! 0) =
     frozen test_accepted \<and>
   status (transactions
      (serve [PostWebhook test_webhook, GetTransaction stub_processor 1] accepted_db) ! 0) =
     Some ''completed'' \<and>
   status test_accepted = Some ''waitingPayment'' \<and>
   moonpayTransactionId
     (transactions (fst (snd (handle (PostTransactions stub_processor test_request) test_db))) ! 0) =
     Some ''ext_1'' \<and>
   moonpayTransactionId
     (transactions (fst (snd (handle (PostTransactions failing_processor test_request) test_db))) ! 0) =
     None"
proof -
  have 0: "0 < length (transactions accepted_db)"
    by (simp add: accepted_db_def)
  have 1: "frozen (transactions
      (serve [PostWebhook test_webhook, GetTransaction stub_processor 1] accepted_db) ! 0) =
     frozen (transactions accepted_db ! 0)"
    using only_status_and_crypto_amount_change
      [of accepted_db "[PostWebhook test_webhook, GetTransaction stub_processor 1]"] 0
    by blast
  show ?thesis
    using 1
    by (simp add: accepted_then_completed test_accepts test_rejects)
      (simp add: accepted_db_def completed_db_def test_completed_def test_accepted_def
        test_pending_def frozen_def)
qed

subsection \<open>What the table accepts\<close>

text \<open>
  Claim C9 as stated fails: \<^verbatim>\<open>create\<close> with neither amount nor currency returns a
  record, with both null.
\<close>

theorem create_without_amount_and_currency:
  "Transaction_create
     [Set_userId (Value 1), Set_cryptoCurrency (Value (Str ''btc'')),
      Set_status (Value (Str ''pending'')), Set_paymentMethod (Value (Str ''mobile_money''))] [] =
   Inr (test_pending\<lparr>amount := None, currency := None\<rparr>,
        [test_pending\<lparr>amount := None, currency := None\<rparr>])"
  by (simp add: Transaction_create_def validate_malformed build_def next_id_def
      test_pending_def Let_def)

text \<open>
  Claim C9, amended. \<^verbatim>\<open>create\<close> fails with a validation error exactly when a string
  attribute (currency, crypto currency, status, payment method, external identifier) is
  given an array or an object. No attribute of the model forbids null, so it does not
  fail for a field that is absent: it then appends one row, under the next key, in which
  the amount is null when no amount was given and the currency is null when no currency
  was given.
\<close>

theorem create_fails_on_shape_only:
  "(\<forall>a. allowNull (Transaction_init a)) \<and>
   ((\<exists>v \<in> set vals. is_array_or_object v) \<longrightarrow>
      (\<exists>a as. Transaction_create vals rows = Inl (ValidationError (a # as)))) \<and>
   ((\<forall>v \<in> set vals. \<not> is_array_or_object v) \<longrightarrow>
      (\<exists>t. Transaction_create vals rows = Inr (t, rows @ [t]) \<and>
           transaction_id t = next_id rows \<and>
           ((\<forall>v. Set_amount v \<in> set vals \<longrightarrow> v = Undefined \<or> v = Null) \<longrightarrow> amount t = None) \<and>
           ((\<forall>v. Set_currency v \<in> set vals \<longrightarrow> v = Undefined \<or> v = Null) \<longrightarrow>
              currency t = None)))"
proof (intro conjI impI allI)
  fix a show "allowNull (Transaction_init a)"
    by (cases a) (simp_all add: Transaction_init_def)
next
  assume "\<exists>v \<in> set vals. is_array_or_object v"
  then show "\<exists>a as. Transaction_create vals rows = Inl (ValidationError (a # as))"
    using Transaction_create_Inl [of _ vals rows] by (auto simp: malformed_iff)
next
  assume ok: "\<forall>v \<in> set vals. \<not> is_array_or_object v"
  have c: "Transaction_create vals rows =
      Inr (build (next_id rows) vals, rows @ [build (next_id rows) vals])"
    using ok by (simp add: Transaction_create_Inr malformed_iff)
  have a: "(\<forall>v. Set_amount v \<in> set vals \<longrightarrow> v = Undefined \<or> v = Null) \<longrightarrow>
      amount (build (next_id rows) vals) = None"
    using amount_fold_assign [of vals] by (simp add: build_def)
  have b: "(\<forall>v. Set_currency v \<in> set vals \<longrightarrow> v = Undefined \<or> v = Null) \<longrightarrow>
      currency (build (next_id rows) vals) = None"
    using currency_fold_assign [of vals] by (simp add: build_def)
  show "\<exists>t. Transaction_create vals rows = Inr (t, rows @ [t]) \<and>
           transaction_id t = next_id rows \<and>
           ((\<forall>v. Set_amount v \<in> set vals \<longrightarrow> v = Undefined \<or> v = Null) \<longrightarrow> amount t = None) \<and>
           ((\<forall>v. Set_currency v \<in> set vals \<longrightarrow> v = Undefined \<or> v = Null) \<longrightarrow>
              currency t = None)"
    using a b by (simp add: c)
qed

theorem create_fails_on_shape_only_witness:
  "(\<exists>t. Transaction_create
          [Set_userId (Value 1), Set_amount Undefined, Set_cryptoCurrency (Value (Str ''btc'')),
           Set_status (Value (Str ''pending'')),
           Set_paymentMethod (Value (Str ''mobile_money''))]
          (transactions accepted_db) =
        Inr (t, transactions accepted_db @ [t]) \<and>
      transaction_id t = 2 \<and> amount t = None \<and> currency t = None) \<and>
   (\<exists>a as. Transaction_create
          [Set_userId (Value 1), Set_amount (Value 5000), Set_currency (Value ArrayOrObject),
           Set_status (Value (Str ''pending''))]
          (transactions accepted_db) = Inl (ValidationError (a # as)))"
proof -
  have n: "next_id (transactions accepted_db) = 2"
    by (simp add: next_id_def accepted_db_def test_accepted_def test_pending_def)
  have 1: "\<exists>t. Transaction_create
          [Set_userId (Value 1), Set_amount Undefined, Set_cryptoCurrency (Value (Str ''btc'')),
           Set_status (Value (Str ''pending'')),
           Set_paymentMethod (Value (Str ''mobile_money''))]
          (transactions accepted_db) =
        Inr (t, transactions accepted_db @ [t]) \<and>
      transaction_id t = 2 \<and> amount t = None \<and> currency t = None"
    using create_fails_on_shape_only
      [of "[Set_userId (Value 1), Set_amount Undefined, Set_cryptoCurrency (Value (Str ''btc'')),
            Set_status (Value (Str ''pending'')),
            Set_paymentMethod (Value (Str ''mobile_money''))]"
          "transactions accepted_db"]
    by (simp add: n)
  have 2: "\<exists>a as. Transaction_create
          [Set_userId (Value 1), Set_amount (Value 5000), Set_currency (Value ArrayOrObject),
           Set_status (Value (Str ''pending''))]
          (transactions accepted_db) = Inl (ValidationError (a # as))"
    using create_fails_on_shape_only
      [of "[Set_userId (Value 1), Set_amount (Value 5000), Set_currency (Value ArrayOrObject),
            Set_status (Value (Str ''pending''))]"
          "transactions accepted_db"]
    by simp
  show ?thesis
    using 1 2 by simp
qed


end
